theory Spec2Isabelle
  imports Complex_Main
begin

section \<open>Budget tracker: the ledger, the budget table and the monthly aggregation\<close>

text \<open>
  A shallow embedding of \<^verbatim>\<open>budget_planner/client/src/App.jsx\<close>: the reducer
  \<^verbatim>\<open>expenseReducer\<close>, the hook \<^verbatim>\<open>useLocalStorage\<close>, and the handlers and
  derived values of the component \<^verbatim>\<open>BudgetExpenseTracker\<close>. The rendering (JSX markup,
  icons, currency formatting) is not modelled, except for the one class expression that
  classifies a category's progress bar; nor are the two effects that write the state back
  to the store.

  The values are typed as the component creates them: a transaction is an object with the
  properties that \<^verbatim>\<open>handleAddExpense\<close> writes, a budget limit is a number, the text
  of an input field is a string.
\<close>

subsection \<open>JavaScript numbers\<close>

text \<open>
  A JavaScript number is \<^verbatim>\<open>NaN\<close>, one of the two infinities, or a finite value.
  A finite value is kept as the rational it stands for, and every operation rounds its
  result to binary64 (next subsection). The one thing left out is the sign of zero:
  \<^verbatim>\<open>-0\<close> is identified with \<^verbatim>\<open>0\<close>, which nothing modelled here tells apart (the code
  divides only by a limit that is \<^verbatim>\<open>> 0\<close>).
\<close>

datatype jsnum = NaN | PInf | NInf | Fin rat

definition isNaN :: "jsnum \<Rightarrow> bool" where
  "isNaN x = (x = NaN)"

subsection \<open>Rounding to binary64\<close>

text \<open>
  The finite values of the code are binary64 numbers: \<open>m * 2 ^ (e - 52)\<close> with an integer
  \<open>m\<close> below \<open>2 ^ 53\<close> in absolute value and \<open>e\<close> between \<open>-1022\<close> and \<open>1023\<close>. The
  result of an arithmetic operation, and of reading a decimal numeral, is the exact result
  rounded to the nearest such number, to the one with the even \<open>m\<close> on a tie; a result
  that rounds to \<open>2 ^ 1024\<close> or beyond is an infinity, and a result below half of
  \<open>2 ^ -1074\<close> is zero.
\<close>

text \<open>The number of binary digits of a positive integer.\<close>

function bitLength :: "int \<Rightarrow> nat" where
  "bitLength n = (if n \<le> 0 then 0 else Suc (bitLength (n div 2)))"
  by pat_completeness auto
termination
  by (relation "measure nat") auto

declare bitLength.simps [simp del]

definition pow2 :: "int \<Rightarrow> rat" where
  "pow2 k = (if 0 \<le> k then 2 ^ nat k else 1 / 2 ^ nat (- k))"

text \<open>For \<open>a > 0\<close>, the exponent \<open>e\<close> with \<open>2 ^ e \<le> a < 2 ^ (e + 1)\<close>.\<close>

definition floorLog2 :: "rat \<Rightarrow> int" where
  "floorLog2 a =
     (if 1 \<le> a then int (bitLength \<lfloor>a\<rfloor>) - 1
      else - int (bitLength (\<lceil>1 / a\<rceil> - 1)))"

definition roundHalfEven :: "rat \<Rightarrow> int" where
  "roundHalfEven x =
     (let f = \<lfloor>x\<rfloor>; r = x - of_int f
      in if r < 1 / 2 then f
         else if 1 / 2 < r then f + 1
         else if even f then f else f + 1)"

definition round64 :: "rat \<Rightarrow> jsnum" where
  "round64 q =
     (if q = 0 then Fin 0
      else
        let a = \<bar>q\<bar>;
            e = max (floorLog2 a) (- 1022);
            u = pow2 (e - 52);
            v = of_int (roundHalfEven (a / u)) * u
        in if pow2 1024 \<le> v then (if q < 0 then NInf else PInf)
           else Fin (if q < 0 then - v else v))"

subsection \<open>Arithmetic and comparison\<close>

fun js_neg :: "jsnum \<Rightarrow> jsnum" where
  "js_neg NaN = NaN"
| "js_neg PInf = NInf"
| "js_neg NInf = PInf"
| "js_neg (Fin a) = Fin (- a)"

text \<open>\<^verbatim>\<open>a < b\<close>: false as soon as one side is \<^verbatim>\<open>NaN\<close>.\<close>

fun js_lt :: "jsnum \<Rightarrow> jsnum \<Rightarrow> bool" where
  "js_lt NaN _ = False"
| "js_lt _ NaN = False"
| "js_lt (Fin a) (Fin b) = (a < b)"
| "js_lt _ NInf = False"
| "js_lt NInf _ = True"
| "js_lt PInf _ = False"
| "js_lt _ PInf = True"

definition js_gt :: "jsnum \<Rightarrow> jsnum \<Rightarrow> bool" where
  "js_gt a b = js_lt b a"

definition js_le :: "jsnum \<Rightarrow> jsnum \<Rightarrow> bool" where
  "js_le a b = (a \<noteq> NaN \<and> b \<noteq> NaN \<and> \<not> js_lt b a)"

definition js_ge :: "jsnum \<Rightarrow> jsnum \<Rightarrow> bool" where
  "js_ge a b = js_le b a"

text \<open>
  \<^verbatim>\<open>a + b\<close> on numbers: the sum of finite values is rounded, opposite infinities
  give \<^verbatim>\<open>NaN\<close>.
\<close>

fun js_add :: "jsnum \<Rightarrow> jsnum \<Rightarrow> jsnum" where
  "js_add NaN _ = NaN"
| "js_add _ NaN = NaN"
| "js_add (Fin a) (Fin b) = round64 (a + b)"
| "js_add PInf NInf = NaN"
| "js_add NInf PInf = NaN"
| "js_add PInf _ = PInf"
| "js_add NInf _ = NInf"
| "js_add _ PInf = PInf"
| "js_add _ NInf = NInf"

definition js_sub :: "jsnum \<Rightarrow> jsnum \<Rightarrow> jsnum" where
  "js_sub a b = js_add a (js_neg b)"

text \<open>The sign of a number that is not \<^verbatim>\<open>NaN\<close>: \<open>-1\<close>, \<open>0\<close> or \<open>1\<close>.\<close>

fun js_sign :: "jsnum \<Rightarrow> int" where
  "js_sign NaN = 0"
| "js_sign PInf = 1"
| "js_sign NInf = - 1"
| "js_sign (Fin a) = (if a < 0 then - 1 else if a = 0 then 0 else 1)"

definition inf_of_sign :: "int \<Rightarrow> jsnum" where
  "inf_of_sign s = (if s < 0 then NInf else if s = 0 then NaN else PInf)"

text \<open>
  \<^verbatim>\<open>a * b\<close>: the product of finite values is rounded, an infinity times zero is
  \<^verbatim>\<open>NaN\<close>.
\<close>

fun js_mul :: "jsnum \<Rightarrow> jsnum \<Rightarrow> jsnum" where
  "js_mul NaN _ = NaN"
| "js_mul _ NaN = NaN"
| "js_mul (Fin a) (Fin b) = round64 (a * b)"
| "js_mul a b = inf_of_sign (js_sign a * js_sign b)"

text \<open>
  \<^verbatim>\<open>a / b\<close>: the quotient of finite values is rounded; a finite value over zero
  is an infinity (\<^verbatim>\<open>NaN\<close> for \<^verbatim>\<open>0 / 0\<close>), never an exception; a finite value
  over an infinity is zero.
\<close>

fun js_div :: "jsnum \<Rightarrow> jsnum \<Rightarrow> jsnum" where
  "js_div NaN _ = NaN"
| "js_div _ NaN = NaN"
| "js_div (Fin a) (Fin b) = (if b = 0 then inf_of_sign (js_sign (Fin a)) else round64 (a / b))"
| "js_div (Fin a) _ = Fin 0"
| "js_div PInf (Fin b) = (if b < 0 then NInf else PInf)"
| "js_div NInf (Fin b) = (if b < 0 then PInf else NInf)"
| "js_div _ _ = NaN"

subsection \<open>Strings: \<^verbatim>\<open>trim\<close> and \<^verbatim>\<open>parseFloat\<close>\<close>

text \<open>
  A string is a list of code units below 256. The white space of \<^verbatim>\<open>String.prototype.trim\<close>
  and of \<^verbatim>\<open>parseFloat\<close> in that range: tab, line feed, vertical tab, form feed,
  carriage return, space and the no-break space.
\<close>

definition isWhiteSpace :: "char \<Rightarrow> bool" where
  "isWhiteSpace c = (c \<in> set [CHR 0x09, CHR 0x0A, CHR 0x0B, CHR 0x0C, CHR 0x0D, CHR 0x20, CHR 0xA0])"

definition trimStart :: "string \<Rightarrow> string" where
  "trimStart s = dropWhile isWhiteSpace s"

definition trimEnd :: "string \<Rightarrow> string" where
  "trimEnd s = rev (dropWhile isWhiteSpace (rev s))"

definition trim :: "string \<Rightarrow> string" where
  "trim s = trimEnd (trimStart s)"

text \<open>A string is truthy when it is not empty.\<close>

definition truthy_str :: "string \<Rightarrow> bool" where
  "truthy_str s = (s \<noteq> [])"

definition isDigit :: "char \<Rightarrow> bool" where
  "isDigit c = (c \<in> set ''0123456789'')"

definition digitVal :: "char \<Rightarrow> int" where
  "digitVal c = of_char c - 48"

definition decimalValue :: "string \<Rightarrow> int" where
  "decimalValue ds = foldl (\<lambda>n c. 10 * n + digitVal c) 0 ds"

definition pow10 :: "int \<Rightarrow> rat" where
  "pow10 k = (if 0 \<le> k then 10 ^ nat k else 1 / 10 ^ nat (- k))"

text \<open>
  The exponent part that follows the mantissa: \<^verbatim>\<open>e\<close> or \<^verbatim>\<open>E\<close>, an optional sign
  and at least one digit. When the digits are missing the exponent is not part of the
  literal, and the value is that of the mantissa alone.
\<close>

definition exponentPart :: "string \<Rightarrow> int" where
  "exponentPart r =
     (case r of
        [] \<Rightarrow> 0
      | c # t \<Rightarrow>
          if c = CHR ''e'' \<or> c = CHR ''E'' then
            (case t of
               [] \<Rightarrow> 0
             | d # u \<Rightarrow>
                 if d = CHR ''+'' then decimalValue (takeWhile isDigit u)
                 else if d = CHR ''-'' then - decimalValue (takeWhile isDigit u)
                 else decimalValue (takeWhile isDigit t))
          else 0)"

text \<open>
  The longest prefix that is a \<^verbatim>\<open>StrUnsignedDecimalLiteral\<close>: \<^verbatim>\<open>Infinity\<close>, or
  digits with an optional fraction and exponent, with at least one digit before or after
  the point; its decimal value is rounded to binary64, as the engines do for a numeral of
  any length (the standard lets an engine ignore the digits after the twentieth
  significant one). \<^verbatim>\<open>NaN\<close> when there is no such prefix.
\<close>

definition strUnsignedDecimalLiteral :: "string \<Rightarrow> jsnum" where
  "strUnsignedDecimalLiteral s =
     (if take 8 s = ''Infinity'' then PInf
      else
        let ip = takeWhile isDigit s;
            r1 = dropWhile isDigit s;
            fp = (case r1 of [] \<Rightarrow> [] | c # t \<Rightarrow> if c = CHR ''.'' then takeWhile isDigit t else []);
            r2 = (case r1 of [] \<Rightarrow> [] | c # t \<Rightarrow> if c = CHR ''.'' then dropWhile isDigit t else r1)
        in if ip = [] \<and> fp = [] then NaN
           else round64 (of_int (decimalValue (ip @ fp)) * pow10 (exponentPart r2 - int (length fp))))"

text \<open>
  \<^verbatim>\<open>parseFloat(s)\<close>: leading white space is skipped, then an optional sign, then the
  longest numeric prefix; whatever follows the prefix is ignored.
\<close>

definition parseFloat :: "string \<Rightarrow> jsnum" where
  "parseFloat s =
     (case trimStart s of
        [] \<Rightarrow> NaN
      | c # t \<Rightarrow>
          if c = CHR ''+'' then strUnsignedDecimalLiteral t
          else if c = CHR ''-'' then js_neg (strUnsignedDecimalLiteral t)
          else strUnsignedDecimalLiteral (c # t))"

subsection \<open>Transactions and the reducer\<close>

text \<open>
  The object that \<^verbatim>\<open>handleAddExpense\<close> builds. The fields carry the prefix \<open>e_\<close>
  (the form state of the component has a \<^verbatim>\<open>description\<close>, an \<^verbatim>\<open>amount\<close>, a
  \<^verbatim>\<open>category\<close> and a \<^verbatim>\<open>type\<close> of its own). \<^verbatim>\<open>id\<close> is the integer that
  \<^verbatim>\<open>Date.now()\<close> returned; \<^verbatim>\<open>updatedAt\<close> is absent until the first edit.
\<close>

record expense =
  e_id :: int
  e_description :: string
  e_amount :: jsnum
  e_category :: string
  e_type :: string
  e_date :: string
  e_updatedAt :: "string option"

text \<open>
  The \<^verbatim>\<open>updates\<close> object of an \<^verbatim>\<open>UPDATE_EXPENSE\<close> action: each property is
  present (\<open>Some\<close>) or not.
\<close>

record updates =
  u_id :: "int option"
  u_description :: "string option"
  u_amount :: "jsnum option"
  u_category :: "string option"
  u_type :: "string option"
  u_date :: "string option"
  u_updatedAt :: "string option"

text \<open>\<^verbatim>\<open>{ ...expense, ...updates }\<close>: a property of \<^verbatim>\<open>updates\<close> wins where it is present.\<close>

definition spread :: "expense \<Rightarrow> updates \<Rightarrow> expense" where
  "spread e u =
     \<lparr> e_id = (case u_id u of None \<Rightarrow> e_id e | Some v \<Rightarrow> v),
       e_description = (case u_description u of None \<Rightarrow> e_description e | Some v \<Rightarrow> v),
       e_amount = (case u_amount u of None \<Rightarrow> e_amount e | Some v \<Rightarrow> v),
       e_category = (case u_category u of None \<Rightarrow> e_category e | Some v \<Rightarrow> v),
       e_type = (case u_type u of None \<Rightarrow> e_type e | Some v \<Rightarrow> v),
       e_date = (case u_date u of None \<Rightarrow> e_date e | Some v \<Rightarrow> v),
       e_updatedAt = (case u_updatedAt u of None \<Rightarrow> e_updatedAt e | Some v \<Rightarrow> Some v) \<rparr>"

text \<open>
  The actions the component dispatches. \<^verbatim>\<open>INIT\<close> is dispatched by the loading effect;
  the reducer has no case for it, so it falls to \<^verbatim>\<open>default\<close>.
\<close>

datatype action =
    ADD_EXPENSE expense
  | DELETE_EXPENSE int
  | UPDATE_EXPENSE int updates
  | INIT "expense list"

fun expenseReducer :: "expense list \<Rightarrow> action \<Rightarrow> expense list" where
  "expenseReducer state (ADD_EXPENSE payload) = state @ [payload]"
| "expenseReducer state (DELETE_EXPENSE payload) = filter (\<lambda>expense. e_id expense \<noteq> payload) state"
| "expenseReducer state (UPDATE_EXPENSE payload_id payload_updates) =
     map (\<lambda>expense. if e_id expense = payload_id then spread expense payload_updates else expense) state"
| "expenseReducer state (INIT payload) = state"

subsection \<open>The state of the component\<close>

text \<open>
  One field for each \<^verbatim>\<open>useReducer\<close>, \<^verbatim>\<open>useState\<close> and \<^verbatim>\<open>useLocalStorage\<close> of
  \<^verbatim>\<open>BudgetExpenseTracker\<close>. \<^verbatim>\<open>amount\<close> is the text of the input field;
  \<^verbatim>\<open>editingExpenseId\<close> is \<^verbatim>\<open>null\<close> (\<open>None\<close>) or an id. The budgets object is a
  map from category to limit.
\<close>

record app =
  expenses :: "expense list"
  description :: string
  amount :: string
  category :: string
  type :: string
  editingExpenseId :: "int option"
  showAddExpense :: bool
  isLoading :: bool
  currentMonth :: int
  currentYear :: int
  budgets :: "string \<rightharpoonup> jsnum"
  showEditBudget :: bool
  savedExpenses :: "expense list"
  savedBudgets :: "string \<rightharpoonup> jsnum"

definition defaultBudgets :: "string \<rightharpoonup> jsnum" where
  "defaultBudgets =
     [''food'' \<mapsto> Fin 300, ''housing'' \<mapsto> Fin 800, ''transportation'' \<mapsto> Fin 150,
      ''utilities'' \<mapsto> Fin 200, ''entertainment'' \<mapsto> Fin 100, ''healthcare'' \<mapsto> Fin 150,
      ''shopping'' \<mapsto> Fin 200, ''other'' \<mapsto> Fin 100]"

subsection \<open>The handlers\<close>

text \<open>
  A handler reads the state of the render it was created in and requests its changes,
  which take effect together at the next render: it is a function from that state to the
  next one.

  The guard shared by \<^verbatim>\<open>handleAddExpense\<close> and \<^verbatim>\<open>updateExpense\<close>:
  \<^verbatim>\<open>description.trim() && amount && !isNaN(parseFloat(amount))\<close>.
\<close>

definition formValid :: "app \<Rightarrow> bool" where
  "formValid s =
     (truthy_str (trim (description s)) \<and> truthy_str (amount s) \<and> \<not> isNaN (parseFloat (amount s)))"

text \<open>
  \<^verbatim>\<open>handleAddExpense\<close>. The two readings of the clock are arguments: \<open>now\<close> is
  \<^verbatim>\<open>Date.now()\<close> and \<open>nowISO\<close> is \<^verbatim>\<open>new Date().toISOString()\<close>.
\<close>

definition handleAddExpense :: "int \<Rightarrow> string \<Rightarrow> app \<Rightarrow> app" where
  "handleAddExpense now nowISO s =
     (if formValid s then
        let newExpenseObj =
              \<lparr> e_id = now,
                e_description = description s,
                e_amount = parseFloat (amount s),
                e_category = category s,
                e_type = type s,
                e_date = nowISO,
                e_updatedAt = None \<rparr>
        in s\<lparr> expenses := expenseReducer (expenses s) (ADD_EXPENSE newExpenseObj),
              description := [],
              amount := [],
              showAddExpense := False \<rparr>
      else s)"

definition deleteExpense :: "int \<Rightarrow> app \<Rightarrow> app" where
  "deleteExpense i s = s\<lparr> expenses := expenseReducer (expenses s) (DELETE_EXPENSE i) \<rparr>"

text \<open>
  \<^verbatim>\<open>updateExpense\<close>: the guard of the add, and \<^verbatim>\<open>editingExpenseId\<close> truthy (not
  \<^verbatim>\<open>null\<close> and not \<open>0\<close>). \<open>nowISO\<close> is \<^verbatim>\<open>new Date().toISOString()\<close>.
\<close>

definition updateExpense :: "string \<Rightarrow> app \<Rightarrow> app" where
  "updateExpense nowISO s =
     (case editingExpenseId s of
        None \<Rightarrow> s
      | Some i \<Rightarrow>
          if formValid s \<and> i \<noteq> 0 then
            s\<lparr> expenses :=
                  expenseReducer (expenses s)
                    (UPDATE_EXPENSE i
                       \<lparr> u_id = None,
                         u_description = Some (description s),
                         u_amount = Some (parseFloat (amount s)),
                         u_category = Some (category s),
                         u_type = Some (type s),
                         u_date = None,
                         u_updatedAt = Some nowISO \<rparr>),
                description := [],
                amount := [],
                editingExpenseId := None,
                showAddExpense := False \<rparr>
          else s)"

text \<open>\<^verbatim>\<open>updateBudget(category, value)\<close>, \<open>value\<close> being the text of the input field.\<close>

definition updateBudget :: "string \<Rightarrow> string \<Rightarrow> app \<Rightarrow> app" where
  "updateBudget cat v s =
     (let newValue = parseFloat v
      in if \<not> isNaN newValue \<and> js_ge newValue (Fin 0)
         then s\<lparr> budgets := (budgets s)(cat \<mapsto> newValue) \<rparr>
         else s)"

text \<open>The two buttons of the month selector.\<close>

definition previousMonth :: "app \<Rightarrow> app" where
  "previousMonth s =
     (if currentMonth s = 0
      then s\<lparr> currentMonth := 11, currentYear := currentYear s - 1 \<rparr>
      else s\<lparr> currentMonth := currentMonth s - 1 \<rparr>)"

definition nextMonth :: "app \<Rightarrow> app" where
  "nextMonth s =
     (if currentMonth s = 11
      then s\<lparr> currentMonth := 0, currentYear := currentYear s + 1 \<rparr>
      else s\<lparr> currentMonth := currentMonth s + 1 \<rparr>)"

subsection \<open>The aggregation for the selected month\<close>

text \<open>
  The month filter reads \<^verbatim>\<open>new Date(expense.date).getMonth()\<close> and
  \<^verbatim>\<open>.getFullYear()\<close>, which depend on the host's time zone and date parser. The two
  readings are taken as a parameter: for a date string, the month (\<open>0\<close> to \<open>11\<close>) and
  the year in local time, or \<open>None\<close> for an invalid date, whose getters return
  \<^verbatim>\<open>NaN\<close> and so compare unequal to every selection.
\<close>

record host =
  getMonth :: "string \<Rightarrow> int option"
  getFullYear :: "string \<Rightarrow> int option"

definition currentMonthExpenses :: "host \<Rightarrow> app \<Rightarrow> expense list" where
  "currentMonthExpenses h s =
     filter (\<lambda>expense. getMonth h (e_date expense) = Some (currentMonth s)
                     \<and> getFullYear h (e_date expense) = Some (currentYear s))
       (expenses s)"

text \<open>\<^verbatim>\<open>.reduce((sum, expense) => sum + expense.amount, 0)\<close>\<close>

definition sumAmounts :: "expense list \<Rightarrow> jsnum" where
  "sumAmounts es = foldl (\<lambda>sum expense. js_add sum (e_amount expense)) (Fin 0) es"

definition totalIncome :: "host \<Rightarrow> app \<Rightarrow> jsnum" where
  "totalIncome h s =
     sumAmounts (filter (\<lambda>expense. e_type expense = ''income'') (currentMonthExpenses h s))"

definition totalExpenses :: "host \<Rightarrow> app \<Rightarrow> jsnum" where
  "totalExpenses h s =
     sumAmounts (filter (\<lambda>expense. e_type expense = ''expense'') (currentMonthExpenses h s))"

definition balance :: "host \<Rightarrow> app \<Rightarrow> jsnum" where
  "balance h s = js_sub (totalIncome h s) (totalExpenses h s)"

text \<open>
  \<^verbatim>\<open>categoryTotals\<close> and \<^verbatim>\<open>categoryPercentages\<close> get one entry for each key of
  \<^verbatim>\<open>budgets\<close>.
\<close>

definition categoryTotals :: "host \<Rightarrow> app \<Rightarrow> (string \<rightharpoonup> jsnum)" where
  "categoryTotals h s cat =
     (case budgets s cat of
        None \<Rightarrow> None
      | Some _ \<Rightarrow>
          Some (sumAmounts
                 (filter (\<lambda>expense. e_category expense = cat \<and> e_type expense = ''expense'')
                    (currentMonthExpenses h s))))"

definition categoryPercentages :: "host \<Rightarrow> app \<Rightarrow> (string \<rightharpoonup> jsnum)" where
  "categoryPercentages h s cat =
     (case budgets s cat of
        None \<Rightarrow> None
      | Some limit \<Rightarrow>
          (case categoryTotals h s cat of
             None \<Rightarrow> None
           | Some spent \<Rightarrow>
               Some (if js_gt limit (Fin 0)
                     then js_mul (js_div spent limit) (Fin 100)
                     else Fin 0)))"

text \<open>
  The class of a category's progress bar, the only place where the percentage is
  classified: red above 100, orange above 75, green otherwise.
\<close>

definition barClass :: "jsnum \<Rightarrow> string" where
  "barClass percentage =
     (if js_gt percentage (Fin 100) then ''bg-red-500''
      else if js_gt percentage (Fin 75) then ''bg-orange-500''
      else ''bg-green-500'')"

definition categoryBarClass :: "host \<Rightarrow> app \<Rightarrow> (string \<rightharpoonup> string)" where
  "categoryBarClass h s cat = map_option barClass (categoryPercentages h s cat)"

text \<open>
  A host in the time zone UTC, on the timestamps that \<^verbatim>\<open>toISOString\<close> writes:
  \<^verbatim>\<open>YYYY-MM-DDTHH:mm:ss.sssZ\<close>, and with a sign and six digits for a year outside
  \<open>0\<close> to \<open>9999\<close>. Local time is the time written, so the getters return the year and
  the month field less one. A string of another shape, or whose fields are not a calendar
  date and a time of day, is taken as an invalid date. It is the host of the scenarios
  below.
\<close>

definition isoExpanded :: "string \<Rightarrow> bool" where
  "isoExpanded d = (case d of [] \<Rightarrow> False | c # t \<Rightarrow> c = CHR ''+'' \<or> c = CHR ''-'')"

definition isoYearDigits :: "string \<Rightarrow> string" where
  "isoYearDigits d = (if isoExpanded d then take 6 (drop 1 d) else take 4 d)"

definition isoRest :: "string \<Rightarrow> string" where
  "isoRest d = (if isoExpanded d then drop 7 d else drop 4 d)"

definition isoYear :: "string \<Rightarrow> int" where
  "isoYear d =
     (if take 1 d = ''-'' then - decimalValue (isoYearDigits d) else decimalValue (isoYearDigits d))"

definition isoShape :: "string \<Rightarrow> bool" where
  "isoShape d =
     (length (isoYearDigits d) = (if isoExpanded d then 6 else 4)
      \<and> list_all isDigit (isoYearDigits d)
      \<and> \<not> (take 1 d = ''-'' \<and> decimalValue (isoYearDigits d) = 0)
      \<and> map (\<lambda>c. if isDigit c then CHR ''0'' else c) (isoRest d) = ''-00-00T00:00:00.000Z'')"

definition isoField :: "nat \<Rightarrow> nat \<Rightarrow> string \<Rightarrow> int" where
  "isoField pos len d = decimalValue (take len (drop pos (isoRest d)))"

definition daysInMonth :: "int \<Rightarrow> int \<Rightarrow> int" where
  "daysInMonth y m =
     (if m = 2 then (if y mod 4 = 0 \<and> (y mod 100 \<noteq> 0 \<or> y mod 400 = 0) then 29 else 28)
      else if m = 4 \<or> m = 6 \<or> m = 9 \<or> m = 11 then 30
      else 31)"

definition isoValid :: "string \<Rightarrow> bool" where
  "isoValid d =
     (isoShape d
      \<and> 1 \<le> isoField 1 2 d \<and> isoField 1 2 d \<le> 12
      \<and> 1 \<le> isoField 4 2 d \<and> isoField 4 2 d \<le> daysInMonth (isoYear d) (isoField 1 2 d)
      \<and> isoField 7 2 d \<le> 23 \<and> isoField 10 2 d \<le> 59 \<and> isoField 13 2 d \<le> 59)"

definition utcHost :: host where
  "utcHost =
     \<lparr> getMonth = (\<lambda>d. if isoValid d then Some (isoField 1 2 d - 1) else None),
       getFullYear = (\<lambda>d. if isoValid d then Some (isoYear d) else None) \<rparr>"

subsection \<open>Loading the persisted state\<close>

text \<open>
  What the initialiser of \<^verbatim>\<open>useLocalStorage\<close> can throw: the access to
  \<^verbatim>\<open>window.localStorage\<close> (storage denied) and \<^verbatim>\<open>JSON.parse\<close> (malformed text).
  The store and the parser belong to the host and are parameters: \<open>getItem key\<close> throws
  or returns \<^verbatim>\<open>null\<close> (\<open>None\<close>) or the stored text; \<open>JSON_parse\<close> throws or returns
  the value.
\<close>

datatype js_error = SecurityError | SyntaxError

text \<open>The body of the \<^verbatim>\<open>try\<close>: an empty text is falsy, as \<^verbatim>\<open>null\<close> is.\<close>

definition useLocalStorage_try ::
    "(string \<Rightarrow> js_error + string option) \<Rightarrow> (string \<Rightarrow> js_error + 'a) \<Rightarrow> string \<Rightarrow> 'a \<Rightarrow> js_error + 'a" where
  "useLocalStorage_try getItem JSON_parse key initialValue =
     (case getItem key of
        Inl err \<Rightarrow> Inl err
      | Inr item \<Rightarrow>
          (case item of
             None \<Rightarrow> Inr initialValue
           | Some str \<Rightarrow> if truthy_str str then JSON_parse str else Inr initialValue))"

text \<open>The initial \<^verbatim>\<open>storedValue\<close>: the \<^verbatim>\<open>catch\<close> returns \<^verbatim>\<open>initialValue\<close>.\<close>

definition useLocalStorage ::
    "(string \<Rightarrow> js_error + string option) \<Rightarrow> (string \<Rightarrow> js_error + 'a) \<Rightarrow> string \<Rightarrow> 'a \<Rightarrow> 'a" where
  "useLocalStorage getItem JSON_parse key initialValue =
     (case useLocalStorage_try getItem JSON_parse key initialValue of
        Inl err \<Rightarrow> initialValue
      | Inr storedValue \<Rightarrow> storedValue)"

text \<open>
  The state at the first render. \<open>month\<close> and \<open>year\<close> are \<^verbatim>\<open>new Date().getMonth()\<close>
  and \<^verbatim>\<open>new Date().getFullYear()\<close>; the parser is given once for each of the two types
  it is used at.
\<close>

definition firstRender ::
    "(string \<Rightarrow> js_error + string option) \<Rightarrow> (string \<Rightarrow> js_error + expense list) \<Rightarrow>
     (string \<Rightarrow> js_error + (string \<rightharpoonup> jsnum)) \<Rightarrow> int \<Rightarrow> int \<Rightarrow> app" where
  "firstRender getItem parseExpenses parseBudgets month year =
     \<lparr> expenses = [],
       description = [],
       amount = [],
       category = ''food'',
       type = ''expense'',
       editingExpenseId = None,
       showAddExpense = False,
       isLoading = True,
       currentMonth = month,
       currentYear = year,
       budgets = defaultBudgets,
       showEditBudget = False,
       savedExpenses = useLocalStorage getItem parseExpenses ''expenses'' [],
       savedBudgets = useLocalStorage getItem parseBudgets ''budgets'' defaultBudgets \<rparr>"

text \<open>The callback of the loading effect's timer.\<close>

definition loadingTimer :: "app \<Rightarrow> app" where
  "loadingTimer s =
     s\<lparr> expenses := expenseReducer (expenses s) (INIT (savedExpenses s)),
        budgets := savedBudgets s,
        isLoading := False \<rparr>"

text \<open>
  The state of the scenarios: the component after its loading effect has run, on a host
  whose store holds nothing, with the selection at the given month and year.
\<close>

definition emptyStorageApp :: "int \<Rightarrow> int \<Rightarrow> app" where
  "emptyStorageApp month year =
     loadingTimer
       (firstRender (\<lambda>key. Inr None) (\<lambda>str. Inl SyntaxError) (\<lambda>str. Inl SyntaxError) month year)"

section \<open>Properties\<close>

subsection \<open>Auxiliary facts\<close>

lemma emptyStorageApp_simps:
  "expenses (emptyStorageApp m y) = []"
  "budgets (emptyStorageApp m y) = defaultBudgets"
  "currentMonth (emptyStorageApp m y) = m"
  "currentYear (emptyStorageApp m y) = y"
  "description (emptyStorageApp m y) = []"
  "amount (emptyStorageApp m y) = []"
  "category (emptyStorageApp m y) = ''food''"
  "type (emptyStorageApp m y) = ''expense''"
  "editingExpenseId (emptyStorageApp m y) = None"
  by (simp_all add: emptyStorageApp_def loadingTimer_def firstRender_def useLocalStorage_def
      useLocalStorage_try_def)

text \<open>The unfoldings that evaluate the model at a concrete input.\<close>

lemma bitLength_numerals:
  "bitLength 0 = 0"
  "bitLength 1 = 1"
  "bitLength (numeral k) = Suc (bitLength (numeral k div 2))"
  "bitLength (- numeral k) = 0"
  by (simp_all add: bitLength.simps [of 0] bitLength.simps [of 1] bitLength.simps [of "numeral k"]
      bitLength.simps [of "- numeral k"])

lemma floor_ceiling_rat_numerals:
  "\<lfloor>numeral a / numeral b :: rat\<rfloor> = numeral a div numeral b"
  "\<lceil>numeral a / numeral b :: rat\<rceil> = - (- numeral a div numeral b)"
  using floor_divide_of_int_eq [of "numeral a" "numeral b", where ?'a = rat]
    ceiling_divide_eq_div [of "numeral a" "numeral b", where ?'a = rat]
  by simp_all

lemmas round64_eval =
  round64_def floorLog2_def bitLength_numerals floor_ceiling_rat_numerals pow2_def
  roundHalfEven_def Let_def

lemmas string_eval =
  truthy_str_def trim_def trimStart_def trimEnd_def isWhiteSpace_def isNaN_def parseFloat_def
  strUnsignedDecimalLiteral_def isDigit_def decimalValue_def digitVal_def exponentPart_def
  pow10_def round64_eval

lemmas utcHost_eval =
  utcHost_def isoValid_def isoShape_def isoField_def daysInMonth_def isoExpanded_def
  isoYearDigits_def isoRest_def isoYear_def

lemmas aggregation_eval =
  categoryBarClass_def categoryPercentages_def categoryTotals_def balance_def totalIncome_def
  totalExpenses_def currentMonthExpenses_def sumAmounts_def js_gt_def js_sub_def

lemmas handler_eval =
  handleAddExpense_def updateExpense_def updateBudget_def formValid_def js_ge_def js_le_def

subsection \<open>Rounding\<close>

text \<open>A rounded value is a number; the rounding of a value that is not negative is not negative.\<close>

lemma round64_not_NaN: "round64 q \<noteq> NaN"
  by (simp add: round64_def Let_def)

lemma pow2_pos: "0 < pow2 k"
  by (simp add: pow2_def)

lemma roundHalfEven_of_int: "roundHalfEven (of_int z) = z"
  by (simp add: roundHalfEven_def)

lemma roundHalfEven_nonneg: "0 \<le> x \<Longrightarrow> 0 \<le> roundHalfEven x"
  by (simp add: roundHalfEven_def Let_def)

lemma round64_nonneg:
  assumes "0 \<le> q"
  shows "round64 q = PInf \<or> (\<exists>v\<ge>0. round64 q = Fin v)"
proof (cases "q = 0")
  case True
  then show ?thesis by (simp add: round64_def)
next
  case False
  define u where "u = pow2 (max (floorLog2 \<bar>q\<bar>) (- 1022) - 52)"
  define v where "v = of_int (roundHalfEven (\<bar>q\<bar> / u)) * u"
  have "0 < u" by (simp add: u_def pow2_pos)
  then have "0 \<le> \<bar>q\<bar> / u" by simp
  then have "0 \<le> roundHalfEven (\<bar>q\<bar> / u)" by (rule roundHalfEven_nonneg)
  with \<open>0 < u\<close> have "0 \<le> v" by (simp add: v_def)
  moreover from False assms
  have "round64 q = (if pow2 1024 \<le> v then PInf else Fin v)"
    by (simp add: round64_def Let_def u_def v_def)
  ultimately show ?thesis by auto
qed

lemma round64_nonneg_ge: "0 \<le> q \<Longrightarrow> js_ge (round64 q) (Fin 0)"
  using round64_nonneg [of q] by (auto simp add: js_ge_def js_le_def)

text \<open>An integer below \<open>2 ^ 53\<close> in absolute value is a binary64 number: rounding keeps it.\<close>

lemma bitLength_le: "n < 2 ^ k \<Longrightarrow> bitLength n \<le> k"
proof (induction k arbitrary: n)
  case 0
  then show ?case by (simp add: bitLength.simps)
next
  case (Suc k)
  show ?case
  proof (cases "n \<le> 0")
    case True
    then show ?thesis by (simp add: bitLength.simps)
  next
    case False
    from Suc.prems have "n div 2 < 2 ^ k" by simp
    then have "bitLength (n div 2) \<le> k" by (rule Suc.IH)
    with False show ?thesis by (simp add: bitLength.simps [of n])
  qed
qed

lemma bitLength_pos: "0 < n \<Longrightarrow> 0 < bitLength n"
  by (simp add: bitLength.simps [of n])

lemma round64_of_int:
  assumes "\<bar>z\<bar> < 2 ^ 53"
  shows "round64 (of_int z) = Fin (of_int z)"
proof (cases "z = 0")
  case True
  then show ?thesis by (simp add: round64_def)
next
  case False
  define a :: rat where "a = of_int \<bar>z\<bar>"
  define b where "b = bitLength \<bar>z\<bar>"
  define k where "k = nat (53 - int b)"
  from False have "0 < \<bar>z\<bar>" by simp
  then have b1: "1 \<le> b" unfolding b_def using bitLength_pos [of "\<bar>z\<bar>"] by simp
  from assms have b53: "b \<le> 53" unfolding b_def by (rule bitLength_le)
  have abs: "\<bar>of_int z :: rat\<bar> = a" by (simp add: a_def)
  from \<open>0 < \<bar>z\<bar>\<close> have "1 \<le> \<bar>z\<bar>" by simp
  then have one: "1 \<le> a" unfolding a_def by (simp only: of_int_1_le_iff)
  have "\<lfloor>a\<rfloor> = \<bar>z\<bar>" unfolding a_def by (rule floor_of_int)
  with one have fl: "floorLog2 a = int b - 1"
    by (simp add: floorLog2_def b_def)
  from b1 have e: "max (int b - 1) (- 1022) = int b - 1" by simp
  from b1 b53 have u: "pow2 (int b - 1 - 52) = 1 / 2 ^ k"
    by (cases "b = 53") (simp_all add: pow2_def k_def)
  have q: "a / (1 / 2 ^ k) = of_int (\<bar>z\<bar> * 2 ^ k)" unfolding a_def by simp
  have v: "(of_int (roundHalfEven (of_int (\<bar>z\<bar> * 2 ^ k))) :: rat) * (1 / 2 ^ k) = a"
    unfolding a_def by (simp only: roundHalfEven_of_int) simp
  from assms have "a < 2 ^ 53"
    unfolding a_def by (simp only: of_int_less_numeral_power_cancel_iff)
  also have "(2::rat) ^ 53 \<le> 2 ^ 1024" by (rule power_increasing) simp_all
  finally have small: "\<not> pow2 1024 \<le> a" by (simp add: pow2_def)
  from False have "round64 (of_int z) = Fin (if (of_int z :: rat) < 0 then - a else a)"
    unfolding round64_def Let_def abs fl e u q v using small by simp
  then show ?thesis by (simp add: a_def)
qed

lemma round64_of_nat: "n < 2 ^ 53 \<Longrightarrow> round64 (of_nat n) = Fin (of_nat n)"
  using round64_of_int [of "int n"] by simp

text \<open>
  Whole amounts whose sum stays below \<open>2 ^ 53\<close> are added without rounding, and the
  difference of two whole numbers below \<open>2 ^ 53\<close> is exact.
\<close>

lemma foldl_js_add_nat:
  "\<forall>e\<in>set es. e_amount e = Fin (of_nat (n e)) \<Longrightarrow> x + sum_list (map n es) < 2 ^ 53 \<Longrightarrow>
   foldl (\<lambda>sum expense. js_add sum (e_amount expense)) (Fin (of_nat x)) es
     = Fin (of_nat (x + sum_list (map n es)))"
proof (induction es arbitrary: x)
  case Nil
  then show ?case by simp
next
  case (Cons e es)
  from Cons.prems have small: "x + n e < 2 ^ 53" by simp
  from Cons.prems have "js_add (Fin (of_nat x)) (e_amount e) = round64 (of_nat (x + n e))"
    by simp
  also from small have "\<dots> = Fin (of_nat (x + n e))" by (rule round64_of_nat)
  finally have step: "js_add (Fin (of_nat x)) (e_amount e) = Fin (of_nat (x + n e))" .
  from Cons.prems have "\<forall>e\<in>set es. e_amount e = Fin (of_nat (n e))"
    and "(x + n e) + sum_list (map n es) < 2 ^ 53"
    by (simp_all add: add.assoc)
  from Cons.IH [OF this] step show ?case by (simp add: add.assoc)
qed

lemma sumAmounts_nat:
  "\<forall>e\<in>set es. e_amount e = Fin (of_nat (n e)) \<Longrightarrow> sum_list (map n es) < 2 ^ 53 \<Longrightarrow>
   sumAmounts es = Fin (of_nat (sum_list (map n es)))"
  using foldl_js_add_nat [of es n 0] by (simp add: sumAmounts_def)

lemma js_sub_nat:
  assumes "x < 2 ^ 53" and "y < 2 ^ 53"
  shows "js_sub (Fin (of_nat x)) (Fin (of_nat y)) = Fin (of_int (int x - int y))"
proof -
  from assms have "int x < 2 ^ 53" "int y < 2 ^ 53" by simp_all
  then have "\<bar>int x - int y\<bar> < 2 ^ 53" by simp
  then have "round64 (of_int (int x - int y)) = Fin (of_int (int x - int y))"
    by (rule round64_of_int)
  then show ?thesis by (simp add: js_sub_def)
qed

subsection \<open>The month selector\<close>

text \<open>
  With the months numbered consecutively (\<open>12 * year + month\<close>), one step back lowers
  the number by one and one step forward raises it by one, and the month stays between
  \<open>0\<close> and \<open>11\<close>.
\<close>

lemma previousMonth_index:
  "0 \<le> currentMonth s \<Longrightarrow> currentMonth s \<le> 11 \<Longrightarrow>
   0 \<le> currentMonth (previousMonth s) \<and> currentMonth (previousMonth s) \<le> 11 \<and>
   12 * currentYear (previousMonth s) + currentMonth (previousMonth s)
     = 12 * currentYear s + currentMonth s - 1"
  by (simp add: previousMonth_def)

lemma nextMonth_index:
  "0 \<le> currentMonth s \<Longrightarrow> currentMonth s \<le> 11 \<Longrightarrow>
   0 \<le> currentMonth (nextMonth s) \<and> currentMonth (nextMonth s) \<le> 11 \<and>
   12 * currentYear (nextMonth s) + currentMonth (nextMonth s)
     = 12 * currentYear s + currentMonth s + 1"
  by (simp add: nextMonth_def)

lemma previousMonth_funpow:
  "0 \<le> currentMonth s \<Longrightarrow> currentMonth s \<le> 11 \<Longrightarrow>
   0 \<le> currentMonth ((previousMonth ^^ n) s) \<and> currentMonth ((previousMonth ^^ n) s) \<le> 11 \<and>
   12 * currentYear ((previousMonth ^^ n) s) + currentMonth ((previousMonth ^^ n) s)
     = 12 * currentYear s + currentMonth s - int n"
proof (induction n)
  case 0
  then show ?case by simp
next
  case (Suc n)
  from Suc.IH [OF Suc.prems] previousMonth_index [of "(previousMonth ^^ n) s"]
  show ?case by simp
qed

lemma nextMonth_funpow:
  "0 \<le> currentMonth s \<Longrightarrow> currentMonth s \<le> 11 \<Longrightarrow>
   0 \<le> currentMonth ((nextMonth ^^ n) s) \<and> currentMonth ((nextMonth ^^ n) s) \<le> 11 \<and>
   12 * currentYear ((nextMonth ^^ n) s) + currentMonth ((nextMonth ^^ n) s)
     = 12 * currentYear s + currentMonth s + int n"
proof (induction n)
  case 0
  then show ?case by simp
next
  case (Suc n)
  from Suc.IH [OF Suc.prems] nextMonth_index [of "(nextMonth ^^ n) s"]
  show ?case by simp
qed

text \<open>
  C8. Stepping back from month \<open>0\<close> of year \<open>Y\<close> gives month \<open>11\<close> of year \<open>Y - 1\<close>,
  and from any other month the month before in the same year; stepping forward from month
  \<open>11\<close> gives month \<open>0\<close> of year \<open>Y + 1\<close>, and from any other month the month after in
  the same year; nothing else of the state changes. No bound restricts the selection:
  from a month between \<open>0\<close> and \<open>11\<close>, \<open>n\<close> steps back or forward reach the month
  \<open>n\<close> places before or after, for every \<open>n\<close>.
\<close>

theorem month_selector_wraparound:
  "previousMonth s =
     s\<lparr> currentMonth := (if currentMonth s = 0 then 11 else currentMonth s - 1),
        currentYear := (if currentMonth s = 0 then currentYear s - 1 else currentYear s) \<rparr>
   \<and> nextMonth s =
     s\<lparr> currentMonth := (if currentMonth s = 11 then 0 else currentMonth s + 1),
        currentYear := (if currentMonth s = 11 then currentYear s + 1 else currentYear s) \<rparr>
   \<and> (0 \<le> currentMonth s \<and> currentMonth s \<le> 11 \<longrightarrow>
        0 \<le> currentMonth ((previousMonth ^^ n) s) \<and> currentMonth ((previousMonth ^^ n) s) \<le> 11
        \<and> 12 * currentYear ((previousMonth ^^ n) s) + currentMonth ((previousMonth ^^ n) s)
             = 12 * currentYear s + currentMonth s - int n
        \<and> 0 \<le> currentMonth ((nextMonth ^^ n) s) \<and> currentMonth ((nextMonth ^^ n) s) \<le> 11
        \<and> 12 * currentYear ((nextMonth ^^ n) s) + currentMonth ((nextMonth ^^ n) s)
             = 12 * currentYear s + currentMonth s + int n)"
  using previousMonth_funpow [of s n] nextMonth_funpow [of s n]
  by (simp add: previousMonth_def nextMonth_def)

theorem month_selector_wraparound_witness:
  "currentMonth (previousMonth (emptyStorageApp 0 2024)) = 11
   \<and> currentYear (previousMonth (emptyStorageApp 0 2024)) = 2023
   \<and> currentMonth (nextMonth (emptyStorageApp 11 2024)) = 0
   \<and> currentYear (nextMonth (emptyStorageApp 11 2024)) = 2025
   \<and> 12 * currentYear ((previousMonth ^^ 30) (emptyStorageApp 0 2024))
        + currentMonth ((previousMonth ^^ 30) (emptyStorageApp 0 2024)) = 12 * 2024 - 30"
  using month_selector_wraparound [of "emptyStorageApp 0 2024" 30]
    month_selector_wraparound [of "emptyStorageApp 11 2024" 0]
  by (simp add: emptyStorageApp_simps)

subsection \<open>The classification of a category\<close>

lemma barClass_red: "barClass p = ''bg-red-500'' \<longleftrightarrow> js_gt p (Fin 100)"
  by (simp add: barClass_def)

lemma barClass_orange:
  "barClass p = ''bg-orange-500'' \<longleftrightarrow> js_gt p (Fin 75) \<and> js_le p (Fin 100)"
  by (cases p) (auto simp add: barClass_def js_gt_def js_le_def)

lemma barClass_green:
  "barClass p = ''bg-green-500'' \<longleftrightarrow>
     \<not> js_gt p (Fin 100) \<and> \<not> (js_gt p (Fin 75) \<and> js_le p (Fin 100))"
  by (cases p) (auto simp add: barClass_def js_gt_def js_le_def)

lemma rent_percentage:
  "categoryPercentages utcHost
     (handleAddExpense 1710498600000 ''2024-03-15T10:30:00.000Z''
        ((emptyStorageApp 2 2024)\<lparr> description := ''Rent'', amount := ''800'', category := ''housing'' \<rparr>))
     ''housing'' = Some (Fin 100)"
  by (simp add: aggregation_eval handler_eval emptyStorageApp_simps string_eval utcHost_eval
      defaultBudgets_def)

text \<open>
  C3. The bar of a category is classified from its percentage \<open>p\<close>: over budget (red)
  exactly when \<open>p > 100\<close>, warning (orange) exactly when \<open>75 < p \<le> 100\<close>, and normal
  (green) in every other case, \<^verbatim>\<open>NaN\<close> included. At \<open>100\<close> the class is the warning,
  at \<open>100.01\<close> it is over budget. In the scenario (empty store, March 2024 selected,
  one expense \<^verbatim>\<open>Rent\<close> of \<open>800\<close> in \<^verbatim>\<open>housing\<close>, default limit \<open>800\<close>) the
  percentage is \<open>100\<close> and the class is the warning.
\<close>

theorem budget_status_classification:
  "categoryBarClass h s cat = map_option barClass (categoryPercentages h s cat)
   \<and> (barClass p = ''bg-red-500'' \<longleftrightarrow> js_gt p (Fin 100))
   \<and> (barClass p = ''bg-orange-500'' \<longleftrightarrow> js_gt p (Fin 75) \<and> js_le p (Fin 100))
   \<and> (barClass p = ''bg-green-500'' \<longleftrightarrow>
        \<not> js_gt p (Fin 100) \<and> \<not> (js_gt p (Fin 75) \<and> js_le p (Fin 100)))
   \<and> barClass (Fin 100) = ''bg-orange-500''
   \<and> barClass (Fin (10001 / 100)) = ''bg-red-500''
   \<and> categoryPercentages utcHost
        (handleAddExpense 1710498600000 ''2024-03-15T10:30:00.000Z''
           ((emptyStorageApp 2 2024)\<lparr> description := ''Rent'', amount := ''800'', category := ''housing'' \<rparr>))
        ''housing'' = Some (Fin 100)
   \<and> categoryBarClass utcHost
        (handleAddExpense 1710498600000 ''2024-03-15T10:30:00.000Z''
           ((emptyStorageApp 2 2024)\<lparr> description := ''Rent'', amount := ''800'', category := ''housing'' \<rparr>))
        ''housing'' = Some ''bg-orange-500''"
proof -
  have "barClass (Fin 100) = ''bg-orange-500''" "barClass (Fin (10001 / 100)) = ''bg-red-500''"
    by (simp_all add: barClass_def js_gt_def)
  with barClass_red [of p] barClass_orange [of p] barClass_green [of p] rent_percentage
  show ?thesis
    by (simp only: categoryBarClass_def option.map simp_thms)
qed

subsection \<open>The percentage of a category\<close>

text \<open>
  C4. For a category whose limit is \<open>0\<close> the percentage is \<open>0\<close>, whatever was spent.
  The division is behind the test \<^verbatim>\<open>budgets[cat] > 0\<close>: the percentage is \<open>0\<close>, or
  the limit is greater than \<open>0\<close> (so not \<open>0\<close>) and the percentage is
  \<^verbatim>\<open>spent / limit * 100\<close>; the division is never one by zero.
\<close>

theorem zero_limit_percentage:
  assumes "budgets s cat = Some limit"
  shows "(limit = Fin 0 \<longrightarrow> categoryPercentages h s cat = Some (Fin 0))
       \<and> (categoryPercentages h s cat = Some (Fin 0)
           \<or> js_gt limit (Fin 0) \<and> limit \<noteq> Fin 0
             \<and> (\<exists>spent. categoryTotals h s cat = Some spent
                  \<and> categoryPercentages h s cat = Some (js_mul (js_div spent limit) (Fin 100))))"
proof (intro conjI impI)
  assume "limit = Fin 0"
  with assms show "categoryPercentages h s cat = Some (Fin 0)"
    by (simp add: categoryPercentages_def categoryTotals_def js_gt_def)
next
  show "categoryPercentages h s cat = Some (Fin 0)
           \<or> js_gt limit (Fin 0) \<and> limit \<noteq> Fin 0
             \<and> (\<exists>spent. categoryTotals h s cat = Some spent
                  \<and> categoryPercentages h s cat = Some (js_mul (js_div spent limit) (Fin 100)))"
    using assms by (auto simp add: categoryPercentages_def categoryTotals_def js_gt_def)
qed

text \<open>
  The limit of \<^verbatim>\<open>food\<close> set to \<open>0\<close>, then a lunch of \<open>12.50\<close>: \<open>12.50\<close> spent and
  a percentage of \<open>0\<close>.
\<close>

theorem zero_limit_percentage_witness:
  "budgets (updateBudget ''food'' ''0'' (emptyStorageApp 2 2024)) ''food'' = Some (Fin 0)
   \<and> categoryTotals utcHost
        (handleAddExpense 1710498600000 ''2024-03-15T10:30:00.000Z''
           ((updateBudget ''food'' ''0'' (emptyStorageApp 2 2024))\<lparr> description := ''Lunch'', amount := ''12.50'' \<rparr>))
        ''food'' = Some (Fin (25 / 2))
   \<and> categoryPercentages utcHost
        (handleAddExpense 1710498600000 ''2024-03-15T10:30:00.000Z''
           ((updateBudget ''food'' ''0'' (emptyStorageApp 2 2024))\<lparr> description := ''Lunch'', amount := ''12.50'' \<rparr>))
        ''food'' = Some (Fin 0)"
proof -
  let ?s = "handleAddExpense 1710498600000 ''2024-03-15T10:30:00.000Z''
           ((updateBudget ''food'' ''0'' (emptyStorageApp 2 2024))\<lparr> description := ''Lunch'', amount := ''12.50'' \<rparr>)"
  have b0: "budgets (updateBudget ''food'' ''0'' (emptyStorageApp 2 2024)) ''food'' = Some (Fin 0)"
    by (simp add: handler_eval emptyStorageApp_simps string_eval)
  have b: "budgets ?s ''food'' = Some (Fin 0)"
    by (simp add: handler_eval emptyStorageApp_simps string_eval)
  have t: "categoryTotals utcHost ?s ''food'' = Some (Fin (25 / 2))"
    by (simp add: aggregation_eval handler_eval emptyStorageApp_simps string_eval utcHost_eval)
  from zero_limit_percentage [OF b, of utcHost] b0 t show ?thesis by simp
qed

subsection \<open>Income, expenses and balance\<close>

text \<open>
  The scenario of the balance: a salary of \<open>2000\<close> and groceries for \<open>500\<close>, added in
  March 2024 with March 2024 selected.
\<close>

lemma salary_groceries_state:
  "handleAddExpense 1710585000000 ''2024-03-16T10:30:00.000Z''
     ((handleAddExpense 1710498600000 ''2024-03-15T10:30:00.000Z''
         ((emptyStorageApp 2 2024)\<lparr> description := ''Salary'', amount := ''2000'', type := ''income'' \<rparr>))
      \<lparr> description := ''Groceries'', amount := ''500'', type := ''expense'' \<rparr>)
   = (emptyStorageApp 2 2024)
      \<lparr> expenses :=
          [\<lparr> e_id = 1710498600000, e_description = ''Salary'', e_amount = Fin 2000,
              e_category = ''food'', e_type = ''income'', e_date = ''2024-03-15T10:30:00.000Z'',
              e_updatedAt = None \<rparr>,
           \<lparr> e_id = 1710585000000, e_description = ''Groceries'', e_amount = Fin 500,
              e_category = ''food'', e_type = ''expense'', e_date = ''2024-03-16T10:30:00.000Z'',
              e_updatedAt = None \<rparr>] \<rparr>"
  by (simp add: handler_eval emptyStorageApp_simps string_eval emptyStorageApp_def loadingTimer_def firstRender_def)

text \<open>
  C5. For every list of transactions and every selected month and year, the balance is
  the total income less the total expenses (the subtraction of JavaScript numbers), where
  the total income is the sum, from \<open>0\<close> and in the order of the list, of the amounts of
  the transactions of the selected month whose type is \<^verbatim>\<open>income\<close>, and the total
  expenses the same for the type \<^verbatim>\<open>expense\<close>. When the amounts are whole numbers
  whose sum over the ledger is below \<open>2 ^ 53\<close>, no addition rounds: the totals are the
  sums and the balance is their difference.
\<close>

theorem balance_is_income_minus_expenses:
  "balance h s = js_sub (totalIncome h s) (totalExpenses h s)
   \<and> totalIncome h s
       = sumAmounts (filter (\<lambda>e. e_type e = ''income'') (currentMonthExpenses h s))
   \<and> totalExpenses h s
       = sumAmounts (filter (\<lambda>e. e_type e = ''expense'') (currentMonthExpenses h s))
   \<and> currentMonthExpenses h s
       = filter (\<lambda>e. getMonth h (e_date e) = Some (currentMonth s)
                    \<and> getFullYear h (e_date e) = Some (currentYear s)) (expenses s)
   \<and> ((\<forall>e\<in>set (expenses s). e_amount e = Fin (of_nat (n e)))
         \<and> sum_list (map n (expenses s)) < 2 ^ 53 \<longrightarrow>
        totalIncome h s
          = Fin (of_nat (\<Sum>e\<leftarrow>filter (\<lambda>e. e_type e = ''income'') (currentMonthExpenses h s). n e))
        \<and> totalExpenses h s
          = Fin (of_nat (\<Sum>e\<leftarrow>filter (\<lambda>e. e_type e = ''expense'') (currentMonthExpenses h s). n e))
        \<and> balance h s
          = Fin (of_int
              (int (\<Sum>e\<leftarrow>filter (\<lambda>e. e_type e = ''income'') (currentMonthExpenses h s). n e)
               - int (\<Sum>e\<leftarrow>filter (\<lambda>e. e_type e = ''expense'') (currentMonthExpenses h s). n e))))"
proof -
  have whole: "totalIncome h s
          = Fin (of_nat (\<Sum>e\<leftarrow>filter (\<lambda>e. e_type e = ''income'') (currentMonthExpenses h s). n e))
        \<and> totalExpenses h s
          = Fin (of_nat (\<Sum>e\<leftarrow>filter (\<lambda>e. e_type e = ''expense'') (currentMonthExpenses h s). n e))
        \<and> balance h s
          = Fin (of_int
              (int (\<Sum>e\<leftarrow>filter (\<lambda>e. e_type e = ''income'') (currentMonthExpenses h s). n e)
               - int (\<Sum>e\<leftarrow>filter (\<lambda>e. e_type e = ''expense'') (currentMonthExpenses h s). n e)))"
    if amounts: "\<forall>e\<in>set (expenses s). e_amount e = Fin (of_nat (n e))"
      and bound: "sum_list (map n (expenses s)) < 2 ^ 53"
  proof -
    let ?of = "\<lambda>t. filter (\<lambda>e. e_type e = t) (currentMonthExpenses h s)"
    have sub: "sum_list (map n (?of t)) < 2 ^ 53" for t
    proof -
      have "sum_list (map n (?of t)) \<le> sum_list (map n (currentMonthExpenses h s))"
        by (rule sum_list_filter_le_nat)
      also have "\<dots> \<le> sum_list (map n (expenses s))"
        unfolding currentMonthExpenses_def by (rule sum_list_filter_le_nat)
      finally show ?thesis using bound by simp
    qed
    from amounts have "\<forall>e\<in>set (?of t). e_amount e = Fin (of_nat (n e))" for t
      by (simp add: currentMonthExpenses_def)
    from sumAmounts_nat [OF this sub]
    have totals: "sumAmounts (?of t) = Fin (of_nat (sum_list (map n (?of t))))" for t .
    from js_sub_nat [OF sub sub]
    have "js_sub (Fin (of_nat (sum_list (map n (?of ''income'')))))
            (Fin (of_nat (sum_list (map n (?of ''expense'')))))
          = Fin (of_int (int (sum_list (map n (?of ''income'')))
                         - int (sum_list (map n (?of ''expense'')))))" .
    with totals show ?thesis
      by (simp add: balance_def totalIncome_def totalExpenses_def)
  qed
  have "balance h s = js_sub (totalIncome h s) (totalExpenses h s)"
    by (simp add: balance_def)
  moreover have "totalIncome h s
       = sumAmounts (filter (\<lambda>e. e_type e = ''income'') (currentMonthExpenses h s))"
    by (simp add: totalIncome_def)
  moreover have "totalExpenses h s
       = sumAmounts (filter (\<lambda>e. e_type e = ''expense'') (currentMonthExpenses h s))"
    by (simp add: totalExpenses_def)
  moreover have "currentMonthExpenses h s
       = filter (\<lambda>e. getMonth h (e_date e) = Some (currentMonth s)
                    \<and> getFullYear h (e_date e) = Some (currentYear s)) (expenses s)"
    by (simp add: currentMonthExpenses_def)
  ultimately show ?thesis
    using whole by blast
qed

lemma salary_groceries_month:
  "currentMonthExpenses utcHost
     ((emptyStorageApp 2 2024)
      \<lparr> expenses :=
          [\<lparr> e_id = 1710498600000, e_description = ''Salary'', e_amount = Fin 2000,
              e_category = ''food'', e_type = ''income'', e_date = ''2024-03-15T10:30:00.000Z'',
              e_updatedAt = None \<rparr>,
           \<lparr> e_id = 1710585000000, e_description = ''Groceries'', e_amount = Fin 500,
              e_category = ''food'', e_type = ''expense'', e_date = ''2024-03-16T10:30:00.000Z'',
              e_updatedAt = None \<rparr>] \<rparr>)
   = [\<lparr> e_id = 1710498600000, e_description = ''Salary'', e_amount = Fin 2000,
              e_category = ''food'', e_type = ''income'', e_date = ''2024-03-15T10:30:00.000Z'',
              e_updatedAt = None \<rparr>,
           \<lparr> e_id = 1710585000000, e_description = ''Groceries'', e_amount = Fin 500,
              e_category = ''food'', e_type = ''expense'', e_date = ''2024-03-16T10:30:00.000Z'',
              e_updatedAt = None \<rparr>]"
  by (simp add: currentMonthExpenses_def emptyStorageApp_simps utcHost_eval string_eval)

theorem balance_is_income_minus_expenses_witness:
  "totalIncome utcHost
     (handleAddExpense 1710585000000 ''2024-03-16T10:30:00.000Z''
       ((handleAddExpense 1710498600000 ''2024-03-15T10:30:00.000Z''
           ((emptyStorageApp 2 2024)\<lparr> description := ''Salary'', amount := ''2000'', type := ''income'' \<rparr>))
        \<lparr> description := ''Groceries'', amount := ''500'', type := ''expense'' \<rparr>)) = Fin 2000
   \<and> totalExpenses utcHost
     (handleAddExpense 1710585000000 ''2024-03-16T10:30:00.000Z''
       ((handleAddExpense 1710498600000 ''2024-03-15T10:30:00.000Z''
           ((emptyStorageApp 2 2024)\<lparr> description := ''Salary'', amount := ''2000'', type := ''income'' \<rparr>))
        \<lparr> description := ''Groceries'', amount := ''500'', type := ''expense'' \<rparr>)) = Fin 500
   \<and> balance utcHost
     (handleAddExpense 1710585000000 ''2024-03-16T10:30:00.000Z''
       ((handleAddExpense 1710498600000 ''2024-03-15T10:30:00.000Z''
           ((emptyStorageApp 2 2024)\<lparr> description := ''Salary'', amount := ''2000'', type := ''income'' \<rparr>))
        \<lparr> description := ''Groceries'', amount := ''500'', type := ''expense'' \<rparr>)) = Fin 1500"
proof -
  define s where "s = (emptyStorageApp 2 2024)
      \<lparr> expenses :=
          [\<lparr> e_id = 1710498600000, e_description = ''Salary'', e_amount = Fin 2000,
              e_category = ''food'', e_type = ''income'', e_date = ''2024-03-15T10:30:00.000Z'',
              e_updatedAt = None \<rparr>,
           \<lparr> e_id = 1710585000000, e_description = ''Groceries'', e_amount = Fin 500,
              e_category = ''food'', e_type = ''expense'', e_date = ''2024-03-16T10:30:00.000Z'',
              e_updatedAt = None \<rparr>] \<rparr>"
  define n :: "expense \<Rightarrow> nat"
    where "n = (\<lambda>e. if e_type e = ''income'' then 2000 else 500)"
  have month: "currentMonthExpenses utcHost s
   = [\<lparr> e_id = 1710498600000, e_description = ''Salary'', e_amount = Fin 2000,
              e_category = ''food'', e_type = ''income'', e_date = ''2024-03-15T10:30:00.000Z'',
              e_updatedAt = None \<rparr>,
           \<lparr> e_id = 1710585000000, e_description = ''Groceries'', e_amount = Fin 500,
              e_category = ''food'', e_type = ''expense'', e_date = ''2024-03-16T10:30:00.000Z'',
              e_updatedAt = None \<rparr>]"
    unfolding s_def by (rule salary_groceries_month)
  have whole: "(\<forall>e\<in>set (expenses s). e_amount e = Fin (of_nat (n e)))
      \<and> sum_list (map n (expenses s)) < 2 ^ 53"
    by (simp add: s_def n_def)
  from balance_is_income_minus_expenses [of utcHost s n] whole
  have "totalIncome utcHost s
          = Fin (of_nat (\<Sum>e\<leftarrow>filter (\<lambda>e. e_type e = ''income'') (currentMonthExpenses utcHost s). n e))"
       "totalExpenses utcHost s
          = Fin (of_nat (\<Sum>e\<leftarrow>filter (\<lambda>e. e_type e = ''expense'') (currentMonthExpenses utcHost s). n e))"
       "balance utcHost s
          = Fin (of_int
              (int (\<Sum>e\<leftarrow>filter (\<lambda>e. e_type e = ''income'') (currentMonthExpenses utcHost s). n e)
               - int (\<Sum>e\<leftarrow>filter (\<lambda>e. e_type e = ''expense'') (currentMonthExpenses utcHost s). n e)))"
    by blast+
  then have "totalIncome utcHost s = Fin 2000 \<and> totalExpenses utcHost s = Fin 500
      \<and> balance utcHost s = Fin 1500"
    unfolding month by (simp add: n_def)
  then show ?thesis
    unfolding salary_groceries_state s_def .
qed

subsection \<open>The reducer's update\<close>

lemma spread_fields:
  "e_id (spread e u) = (case u_id u of None \<Rightarrow> e_id e | Some v \<Rightarrow> v)"
  "e_description (spread e u) = (case u_description u of None \<Rightarrow> e_description e | Some v \<Rightarrow> v)"
  "e_amount (spread e u) = (case u_amount u of None \<Rightarrow> e_amount e | Some v \<Rightarrow> v)"
  "e_category (spread e u) = (case u_category u of None \<Rightarrow> e_category e | Some v \<Rightarrow> v)"
  "e_type (spread e u) = (case u_type u of None \<Rightarrow> e_type e | Some v \<Rightarrow> v)"
  "e_date (spread e u) = (case u_date u of None \<Rightarrow> e_date e | Some v \<Rightarrow> v)"
  "e_updatedAt (spread e u) = (case u_updatedAt u of None \<Rightarrow> e_updatedAt e | Some v \<Rightarrow> Some v)"
  by (simp_all add: spread_def)

lemma update_absent_id:
  "\<forall>e\<in>set state. e_id e \<noteq> i \<Longrightarrow> expenseReducer state (UPDATE_EXPENSE i fs) = state"
  by (induction state) simp_all

text \<open>
  C7. For every ledger \<open>state\<close>, id \<open>i\<close> and object \<open>fs\<close> of fields, the update
  keeps the length and the positions; a record whose id is \<open>i\<close> becomes the record
  merged with \<open>fs\<close>, in which each field present in \<open>fs\<close> has the value \<open>fs\<close> gives
  and each field absent from \<open>fs\<close> has its old value; a record with another id is
  unchanged; and when no record has the id \<open>i\<close> the whole ledger is unchanged.
\<close>

theorem update_merges_fields:
  "length (expenseReducer state (UPDATE_EXPENSE i fs)) = length state
   \<and> (\<forall>j<length state.
        expenseReducer state (UPDATE_EXPENSE i fs) ! j
          = (if e_id (state ! j) = i then spread (state ! j) fs else state ! j))
   \<and> e_id (spread e fs) = (case u_id fs of None \<Rightarrow> e_id e | Some v \<Rightarrow> v)
   \<and> e_description (spread e fs)
       = (case u_description fs of None \<Rightarrow> e_description e | Some v \<Rightarrow> v)
   \<and> e_amount (spread e fs) = (case u_amount fs of None \<Rightarrow> e_amount e | Some v \<Rightarrow> v)
   \<and> e_category (spread e fs)
       = (case u_category fs of None \<Rightarrow> e_category e | Some v \<Rightarrow> v)
   \<and> e_type (spread e fs) = (case u_type fs of None \<Rightarrow> e_type e | Some v \<Rightarrow> v)
   \<and> e_date (spread e fs) = (case u_date fs of None \<Rightarrow> e_date e | Some v \<Rightarrow> v)
   \<and> e_updatedAt (spread e fs)
       = (case u_updatedAt fs of None \<Rightarrow> e_updatedAt e | Some v \<Rightarrow> Some v)
   \<and> ((\<forall>e\<in>set state. e_id e \<noteq> i) \<longrightarrow> expenseReducer state (UPDATE_EXPENSE i fs) = state)"
  using update_absent_id [of state i fs]
  by (simp add: spread_fields)

text \<open>
  A ledger of two records: the update of id \<open>2\<close> with the amount alone changes the
  amount of the second record and nothing else; the update of the absent id \<open>3\<close> changes
  nothing.
\<close>

theorem update_merges_fields_witness:
  "expenseReducer
     [\<lparr> e_id = 1, e_description = ''Rent'', e_amount = Fin 800, e_category = ''housing'',
         e_type = ''expense'', e_date = ''2024-03-01T09:00:00.000Z'', e_updatedAt = None \<rparr>,
      \<lparr> e_id = 2, e_description = ''Lunch'', e_amount = Fin 12, e_category = ''food'',
         e_type = ''expense'', e_date = ''2024-03-02T12:00:00.000Z'', e_updatedAt = None \<rparr>]
     (UPDATE_EXPENSE 2
        \<lparr> u_id = None, u_description = None, u_amount = Some (Fin 15), u_category = None,
           u_type = None, u_date = None, u_updatedAt = None \<rparr>)
   = [\<lparr> e_id = 1, e_description = ''Rent'', e_amount = Fin 800, e_category = ''housing'',
         e_type = ''expense'', e_date = ''2024-03-01T09:00:00.000Z'', e_updatedAt = None \<rparr>,
      \<lparr> e_id = 2, e_description = ''Lunch'', e_amount = Fin 15, e_category = ''food'',
         e_type = ''expense'', e_date = ''2024-03-02T12:00:00.000Z'', e_updatedAt = None \<rparr>]
   \<and> expenseReducer
     [\<lparr> e_id = 1, e_description = ''Rent'', e_amount = Fin 800, e_category = ''housing'',
         e_type = ''expense'', e_date = ''2024-03-01T09:00:00.000Z'', e_updatedAt = None \<rparr>,
      \<lparr> e_id = 2, e_description = ''Lunch'', e_amount = Fin 12, e_category = ''food'',
         e_type = ''expense'', e_date = ''2024-03-02T12:00:00.000Z'', e_updatedAt = None \<rparr>]
     (UPDATE_EXPENSE 3
        \<lparr> u_id = None, u_description = None, u_amount = Some (Fin 15), u_category = None,
           u_type = None, u_date = None, u_updatedAt = None \<rparr>)
   = [\<lparr> e_id = 1, e_description = ''Rent'', e_amount = Fin 800, e_category = ''housing'',
         e_type = ''expense'', e_date = ''2024-03-01T09:00:00.000Z'', e_updatedAt = None \<rparr>,
      \<lparr> e_id = 2, e_description = ''Lunch'', e_amount = Fin 12, e_category = ''food'',
         e_type = ''expense'', e_date = ''2024-03-02T12:00:00.000Z'', e_updatedAt = None \<rparr>]"
proof -
  define state where "state =
     [\<lparr> e_id = 1, e_description = ''Rent'', e_amount = Fin 800, e_category = ''housing'',
         e_type = ''expense'', e_date = ''2024-03-01T09:00:00.000Z'', e_updatedAt = None \<rparr>,
      \<lparr> e_id = 2, e_description = ''Lunch'', e_amount = Fin 12, e_category = ''food'',
         e_type = ''expense'', e_date = ''2024-03-02T12:00:00.000Z'', e_updatedAt = None \<rparr>]"
  define fs where "fs =
        \<lparr> u_id = None, u_description = None, u_amount = Some (Fin 15), u_category = None,
           u_type = None, u_date = None, u_updatedAt = None \<rparr>"
  have absent: "\<forall>e\<in>set state. e_id e \<noteq> 3"
    by (simp add: state_def)
  from update_merges_fields [of state 3 fs] absent
  have "expenseReducer state (UPDATE_EXPENSE 3 fs) = state"
    by blast
  moreover have "expenseReducer state (UPDATE_EXPENSE 2 fs)
      = [state ! 0, (state ! 1)\<lparr> e_amount := Fin 15 \<rparr>]"
    by (simp add: state_def fs_def spread_def)
  ultimately show ?thesis
    by (simp add: state_def fs_def)
qed

subsection \<open>Adding and editing a transaction\<close>

lemma handleAddExpense_invalid: "\<not> formValid s \<Longrightarrow> handleAddExpense now nowISO s = s"
  by (simp add: handleAddExpense_def)

lemma handleAddExpense_valid:
  "formValid s \<Longrightarrow>
   expenses (handleAddExpense now nowISO s)
     = expenses s @ [\<lparr> e_id = now, e_description = description s,
                        e_amount = parseFloat (amount s), e_category = category s,
                        e_type = type s, e_date = nowISO, e_updatedAt = None \<rparr>]"
  by (simp add: handleAddExpense_def)

lemma updateExpense_valid:
  "formValid s \<Longrightarrow> editingExpenseId s = Some i \<Longrightarrow> i \<noteq> 0 \<Longrightarrow>
   expenses (updateExpense nowISO s)
     = map (\<lambda>expense. if e_id expense = i
             then \<lparr> e_id = e_id expense, e_description = description s,
                    e_amount = parseFloat (amount s), e_category = category s,
                    e_type = type s, e_date = e_date expense, e_updatedAt = Some nowISO \<rparr>
             else expense) (expenses s)"
  by (simp add: updateExpense_def spread_def)

text \<open>
  C1. The add at the description \<^verbatim>\<open>Refund\<close> and the amount text \<^verbatim>\<open>-5\<close>: the
  guard passes, since \<^verbatim>\<open>parseFloat("-5")\<close> is \<open>-5\<close> and not \<^verbatim>\<open>NaN\<close>, and a
  transaction of amount \<open>-5\<close> is appended to the empty ledger. The amount is not
  \<^verbatim>\<open>>= 0\<close>; \<^verbatim>\<open>updateBudget\<close>, which tests \<^verbatim>\<open>newValue >= 0\<close>, leaves the state
  unchanged on the same text.
\<close>

theorem add_accepts_negative_amount:
  "expenses (handleAddExpense 1710498600000 ''2024-03-15T10:30:00.000Z''
      ((emptyStorageApp 2 2024)\<lparr> description := ''Refund'', amount := ''-5'' \<rparr>))
   = [\<lparr> e_id = 1710498600000, e_description = ''Refund'', e_amount = Fin (- 5),
        e_category = ''food'', e_type = ''expense'', e_date = ''2024-03-15T10:30:00.000Z'',
        e_updatedAt = None \<rparr>]
   \<and> parseFloat ''-5'' = Fin (- 5)
   \<and> \<not> js_ge (parseFloat ''-5'') (Fin 0)
   \<and> updateBudget ''food'' ''-5'' (emptyStorageApp 2 2024) = emptyStorageApp 2 2024"
proof -
  have p: "parseFloat ''-5'' = Fin (- 5)"
    by (simp add: string_eval)
  have v: "formValid ((emptyStorageApp 2 2024)\<lparr> description := ''Refund'', amount := ''-5'' \<rparr>)"
    by (simp add: formValid_def p isNaN_def truthy_str_def trim_def trimStart_def trimEnd_def
        isWhiteSpace_def)
  show ?thesis
    by (simp add: handleAddExpense_valid [OF v] p emptyStorageApp_simps updateBudget_def
        js_ge_def js_le_def isNaN_def)
qed

text \<open>
  C2, as stated, fails: two adds at the same reading of the clock give two transactions
  with the same id.
\<close>

theorem add_id_collision:
  "map e_id
     (expenses (handleAddExpense 1710498600000 ''2024-03-15T10:30:00.000Z''
        ((handleAddExpense 1710498600000 ''2024-03-15T10:30:00.000Z''
            ((emptyStorageApp 2 2024)\<lparr> description := ''Coffee'', amount := ''3'' \<rparr>))
         \<lparr> description := ''Bagel'', amount := ''4'' \<rparr>)))
   = [1710498600000, 1710498600000]"
proof -
  have p: "parseFloat ''3'' = Fin 3" "parseFloat ''4'' = Fin 4"
    by (simp_all add: string_eval)
  have t: "trim ''Coffee'' = ''Coffee''" "trim ''Bagel'' = ''Bagel''"
    by (simp_all add: trim_def trimStart_def trimEnd_def isWhiteSpace_def)
  have v1: "formValid ((emptyStorageApp 2 2024)\<lparr> description := ''Coffee'', amount := ''3'' \<rparr>)"
    by (simp add: formValid_def p t isNaN_def truthy_str_def)
  have v2: "formValid ((handleAddExpense 1710498600000 ''2024-03-15T10:30:00.000Z''
            ((emptyStorageApp 2 2024)\<lparr> description := ''Coffee'', amount := ''3'' \<rparr>))
         \<lparr> description := ''Bagel'', amount := ''4'' \<rparr>)"
    by (simp add: formValid_def p t isNaN_def truthy_str_def)
  show ?thesis
    by (simp add: handleAddExpense_valid [OF v2] handleAddExpense_valid [OF v1]
        emptyStorageApp_simps)
qed

text \<open>
  C2, amended. For every valid add, the ledger grows by one transaction at its end, whose
  id is the reading \<open>now\<close> of the clock. When no transaction of the ledger has that
  reading as its id, the new id differs from every id of the ledger, and ids that were
  pairwise distinct stay so; when every id of the ledger is below the reading, every id of
  the ledger is below the new id.
\<close>

theorem add_id_is_clock_reading:
  assumes "formValid s"
  shows "\<exists>new. expenses (handleAddExpense now nowISO s) = expenses s @ [new]
           \<and> e_id new = now
           \<and> ((\<forall>e\<in>set (expenses s). e_id e \<noteq> now) \<longrightarrow>
                (\<forall>e\<in>set (expenses s). e_id e \<noteq> e_id new)
                \<and> (distinct (map e_id (expenses s)) \<longrightarrow>
                     distinct (map e_id (expenses (handleAddExpense now nowISO s)))))
           \<and> ((\<forall>e\<in>set (expenses s). e_id e < now) \<longrightarrow>
                (\<forall>e\<in>set (expenses s). e_id e < e_id new))"
proof -
  let ?new = "\<lparr> e_id = now, e_description = description s,
                e_amount = parseFloat (amount s), e_category = category s,
                e_type = type s, e_date = nowISO, e_updatedAt = None \<rparr>"
  from assms have appended: "expenses (handleAddExpense now nowISO s) = expenses s @ [?new]"
    by (rule handleAddExpense_valid)
  have reading: "e_id ?new = now"
    by simp
  have kept: "distinct (map e_id (expenses (handleAddExpense now nowISO s)))"
    if "\<forall>e\<in>set (expenses s). e_id e \<noteq> now" and "distinct (map e_id (expenses s))"
    using that by (auto simp add: appended)
  from appended reading kept show ?thesis
    by (intro exI [of _ ?new]) simp
qed

text \<open>Two adds one millisecond apart: the ids are the two readings, and distinct.\<close>

theorem add_id_is_clock_reading_witness:
  "map e_id
     (expenses (handleAddExpense 1710498600001 ''2024-03-15T10:30:00.001Z''
        ((handleAddExpense 1710498600000 ''2024-03-15T10:30:00.000Z''
            ((emptyStorageApp 2 2024)\<lparr> description := ''Coffee'', amount := ''3'' \<rparr>))
         \<lparr> description := ''Bagel'', amount := ''4'' \<rparr>)))
   = [1710498600000, 1710498600001]
   \<and> distinct (map e_id
     (expenses (handleAddExpense 1710498600001 ''2024-03-15T10:30:00.001Z''
        ((handleAddExpense 1710498600000 ''2024-03-15T10:30:00.000Z''
            ((emptyStorageApp 2 2024)\<lparr> description := ''Coffee'', amount := ''3'' \<rparr>))
         \<lparr> description := ''Bagel'', amount := ''4'' \<rparr>))))"
proof -
  define s1 where "s1 = (handleAddExpense 1710498600000 ''2024-03-15T10:30:00.000Z''
            ((emptyStorageApp 2 2024)\<lparr> description := ''Coffee'', amount := ''3'' \<rparr>))
         \<lparr> description := ''Bagel'', amount := ''4'' \<rparr>"
  define s2 where "s2 = handleAddExpense 1710498600001 ''2024-03-15T10:30:00.001Z'' s1"
  have p: "parseFloat ''3'' = Fin 3" "parseFloat ''4'' = Fin 4"
    by (simp_all add: string_eval)
  have t: "trim ''Coffee'' = ''Coffee''" "trim ''Bagel'' = ''Bagel''"
    by (simp_all add: trim_def trimStart_def trimEnd_def isWhiteSpace_def)
  have v1: "formValid ((emptyStorageApp 2 2024)\<lparr> description := ''Coffee'', amount := ''3'' \<rparr>)"
    by (simp add: formValid_def p t isNaN_def truthy_str_def)
  have ex: "expenses s1
      = [\<lparr> e_id = 1710498600000, e_description = ''Coffee'', e_amount = Fin 3,
           e_category = ''food'', e_type = ''expense'', e_date = ''2024-03-15T10:30:00.000Z'',
           e_updatedAt = None \<rparr>]"
    by (simp add: s1_def handleAddExpense_valid [OF v1] emptyStorageApp_simps p)
  have v2: "formValid s1"
    by (simp add: s1_def formValid_def p t isNaN_def truthy_str_def)
  have fresh: "\<forall>e\<in>set (expenses s1). e_id e \<noteq> 1710498600001"
    by (simp add: ex)
  have d: "distinct (map e_id (expenses s1))"
    by (simp add: ex)
  from add_id_is_clock_reading [OF v2, of 1710498600001 "''2024-03-15T10:30:00.001Z''"]
  obtain new where new: "expenses s2 = expenses s1 @ [new]" "e_id new = 1710498600001"
    and imp: "(\<forall>e\<in>set (expenses s1). e_id e \<noteq> 1710498600001) \<longrightarrow>
                (\<forall>e\<in>set (expenses s1). e_id e \<noteq> e_id new)
                \<and> (distinct (map e_id (expenses s1)) \<longrightarrow> distinct (map e_id (expenses s2)))"
    unfolding s2_def by blast
  from imp fresh d have "distinct (map e_id (expenses s2))"
    by blast
  moreover have "map e_id (expenses s2) = [1710498600000, 1710498600001]"
    by (simp add: new ex)
  ultimately show ?thesis
    unfolding s2_def s1_def by simp
qed

text \<open>
  C6, as stated, fails: \<^verbatim>\<open>date\<close> is a field other than \<^verbatim>\<open>id\<close>, and the edit does
  not replace it. Here every value of the form differs from the record's, and the edit is
  made a month later; the record keeps its \<^verbatim>\<open>date\<close>.
\<close>

theorem update_keeps_creation_date:
  "expenses (updateExpense ''2024-04-02T08:00:00.000Z''
      ((emptyStorageApp 3 2024)
       \<lparr> expenses :=
           [\<lparr> e_id = 1709283600000, e_description = ''Rent'', e_amount = Fin 800,
               e_category = ''housing'', e_type = ''expense'',
               e_date = ''2024-03-01T09:00:00.000Z'', e_updatedAt = None \<rparr>],
          description := ''Salary'', amount := ''850'', category := ''other'', type := ''income'',
          editingExpenseId := Some 1709283600000 \<rparr>))
   = [\<lparr> e_id = 1709283600000, e_description = ''Salary'', e_amount = Fin 850,
        e_category = ''other'', e_type = ''income'',
        e_date = ''2024-03-01T09:00:00.000Z'',
        e_updatedAt = Some ''2024-04-02T08:00:00.000Z'' \<rparr>]"
proof -
  have p: "parseFloat ''850'' = Fin 850"
    by (simp add: string_eval)
  have t: "trim ''Salary'' = ''Salary''"
    by (simp add: trim_def trimStart_def trimEnd_def isWhiteSpace_def)
  show ?thesis
    by (simp add: updateExpense_def formValid_def p t isNaN_def truthy_str_def spread_def)
qed

text \<open>
  C6, amended. For every valid update (the form passes the guard and
  \<^verbatim>\<open>editingExpenseId\<close> is an id other than \<open>0\<close>), each transaction with that id gets
  the description, the amount (parsed), the category and the type of the form, and
  \<^verbatim>\<open>updatedAt\<close> set to the time of the edit; its \<^verbatim>\<open>id\<close> and its \<^verbatim>\<open>date\<close> are
  kept. Every other transaction is unchanged.
\<close>

theorem update_replaces_form_fields:
  assumes "formValid s" and "editingExpenseId s = Some i" and "i \<noteq> 0"
  shows "length (expenses (updateExpense nowISO s)) = length (expenses s)
       \<and> (\<forall>j<length (expenses s).
            expenses (updateExpense nowISO s) ! j
              = (if e_id (expenses s ! j) = i
                 then \<lparr> e_id = e_id (expenses s ! j),
                        e_description = description s,
                        e_amount = parseFloat (amount s),
                        e_category = category s,
                        e_type = type s,
                        e_date = e_date (expenses s ! j),
                        e_updatedAt = Some nowISO \<rparr>
                 else expenses s ! j))"
proof -
  let ?edit = "\<lambda>expense. if e_id expense = i
             then \<lparr> e_id = e_id expense, e_description = description s,
                    e_amount = parseFloat (amount s), e_category = category s,
                    e_type = type s, e_date = e_date expense, e_updatedAt = Some nowISO \<rparr>
             else expense"
  from assms have mapped: "expenses (updateExpense nowISO s) = map ?edit (expenses s)"
    by (rule updateExpense_valid)
  then have "length (expenses (updateExpense nowISO s)) = length (expenses s)"
    by simp
  moreover have "expenses (updateExpense nowISO s) ! j = ?edit (expenses s ! j)"
    if "j < length (expenses s)" for j
    using that by (simp add: mapped)
  ultimately show ?thesis
    by simp
qed

text \<open>An edit of the rent: new description and amount, same id and date.\<close>

theorem update_replaces_form_fields_witness:
  "expenses (updateExpense ''2024-04-02T08:00:00.000Z''
      ((emptyStorageApp 3 2024)
       \<lparr> expenses :=
           [\<lparr> e_id = 1709283600000, e_description = ''Rent'', e_amount = Fin 800,
               e_category = ''housing'', e_type = ''expense'',
               e_date = ''2024-03-01T09:00:00.000Z'', e_updatedAt = None \<rparr>],
          description := ''Rent and water'', amount := ''850.5'',
          editingExpenseId := Some 1709283600000 \<rparr>)) ! 0
   = \<lparr> e_id = 1709283600000, e_description = ''Rent and water'', e_amount = Fin (1701 / 2),
        e_category = ''food'', e_type = ''expense'',
        e_date = ''2024-03-01T09:00:00.000Z'',
        e_updatedAt = Some ''2024-04-02T08:00:00.000Z'' \<rparr>"
proof -
  define s where "s = (emptyStorageApp 3 2024)
       \<lparr> expenses :=
           [\<lparr> e_id = 1709283600000, e_description = ''Rent'', e_amount = Fin 800,
               e_category = ''housing'', e_type = ''expense'',
               e_date = ''2024-03-01T09:00:00.000Z'', e_updatedAt = None \<rparr>],
          description := ''Rent and water'', amount := ''850.5'',
          editingExpenseId := Some 1709283600000 \<rparr>"
  have p: "parseFloat ''850.5'' = Fin (1701 / 2)"
    by (simp add: string_eval)
  have t: "trim ''Rent and water'' = ''Rent and water''"
    by (simp add: trim_def trimStart_def trimEnd_def isWhiteSpace_def)
  have v: "formValid s"
    by (simp add: s_def formValid_def p t isNaN_def truthy_str_def)
  have e: "editingExpenseId s = Some 1709283600000" "(1709283600000::int) \<noteq> 0"
    by (simp_all add: s_def)
  from update_replaces_form_fields [OF v e, of "''2024-04-02T08:00:00.000Z''"]
  have "expenses (updateExpense ''2024-04-02T08:00:00.000Z'' s) ! 0
              = (if e_id (expenses s ! 0) = 1709283600000
                 then \<lparr> e_id = e_id (expenses s ! 0),
                        e_description = description s,
                        e_amount = parseFloat (amount s),
                        e_category = category s,
                        e_type = type s,
                        e_date = e_date (expenses s ! 0),
                        e_updatedAt = Some ''2024-04-02T08:00:00.000Z'' \<rparr>
                 else expenses s ! 0)"
    by (simp add: s_def)
  then show ?thesis
    unfolding s_def by (simp add: p emptyStorageApp_simps)
qed

subsection \<open>What \<^verbatim>\<open>parseFloat\<close> accepts\<close>

lemma isDigit_not_special:
  "isDigit c \<Longrightarrow> \<not> isWhiteSpace c \<and> c \<noteq> CHR ''+'' \<and> c \<noteq> CHR ''-'' \<and> c \<noteq> CHR ''I'' \<and> c \<noteq> CHR ''.''"
  by (auto simp add: isDigit_def isWhiteSpace_def)

lemma takeWhile_digits_prefix:
  assumes "\<forall>c\<in>set ds. isDigit c" and "rest = [] \<or> \<not> isDigit (hd rest)"
  shows "takeWhile isDigit (ds @ rest) = ds" and "dropWhile isDigit (ds @ rest) = rest"
proof -
  from assms(2) have "takeWhile isDigit rest = []" "dropWhile isDigit rest = rest"
    by (cases rest; simp)+
  with assms(1) show "takeWhile isDigit (ds @ rest) = ds" "dropWhile isDigit (ds @ rest) = rest"
    by simp_all
qed

lemma digitVal_nonneg: "isDigit c \<Longrightarrow> 0 \<le> digitVal c"
  by (auto simp add: isDigit_def digitVal_def)

lemma foldl_digits_nonneg:
  "\<forall>c\<in>set ds. isDigit c \<Longrightarrow> 0 \<le> x \<Longrightarrow> 0 \<le> foldl (\<lambda>n c. 10 * n + digitVal c) x ds"
  by (induction ds arbitrary: x) (simp_all add: digitVal_nonneg)

lemma decimalValue_nonneg: "\<forall>c\<in>set ds. isDigit c \<Longrightarrow> 0 \<le> decimalValue ds"
  unfolding decimalValue_def by (rule foldl_digits_nonneg) simp_all

lemma exponentPart_none:
  "rest = [] \<or> (hd rest \<noteq> CHR ''e'' \<and> hd rest \<noteq> CHR ''E'') \<Longrightarrow> exponentPart rest = 0"
  by (cases rest) (auto simp add: exponentPart_def)

lemma strUnsignedDecimalLiteral_digits:
  assumes "ds \<noteq> []" and "\<forall>c\<in>set ds. isDigit c"
    and "rest = [] \<or> \<not> isDigit (hd rest) \<and> hd rest \<notin> {CHR ''.'', CHR ''e'', CHR ''E''}"
  shows "strUnsignedDecimalLiteral (ds @ rest) = round64 (of_int (decimalValue ds))"
proof -
  from assms(1) obtain d ds' where ds: "ds = d # ds'" by (cases ds) auto
  with assms(2) have "isDigit d" by simp
  then have "d \<noteq> CHR ''I''" by (simp add: isDigit_not_special)
  then have inf: "take 8 (ds @ rest) \<noteq> ''Infinity''" by (simp add: ds)
  from assms(3) have r: "rest = [] \<or> \<not> isDigit (hd rest)" by blast
  note tw = takeWhile_digits_prefix [OF assms(2) r]
  from assms(3) have e: "exponentPart rest = 0"
    by (intro exponentPart_none) auto
  from assms(3) have "rest = [] \<or> hd rest \<noteq> CHR ''.''" by auto
  then have fp: "(case rest of [] \<Rightarrow> [] | c # t \<Rightarrow> if c = CHR ''.'' then takeWhile isDigit t else []) = []"
    and r2: "(case rest of [] \<Rightarrow> [] | c # t \<Rightarrow> if c = CHR ''.'' then dropWhile isDigit t else rest) = rest"
    by (cases rest; simp)+
  show ?thesis
    using inf assms(1) by (simp add: strUnsignedDecimalLiteral_def tw fp r2 e pow10_def)
qed

lemma parseFloat_digits:
  assumes "ds \<noteq> []" and "\<forall>c\<in>set ds. isDigit c"
    and "rest = [] \<or> \<not> isDigit (hd rest) \<and> hd rest \<notin> {CHR ''.'', CHR ''e'', CHR ''E''}"
  shows "parseFloat (ds @ rest) = round64 (of_int (decimalValue ds))"
proof -
  from assms(1) obtain d ds' where ds: "ds = d # ds'" by (cases ds) auto
  with assms(2) have "isDigit d" by simp
  then have d: "\<not> isWhiteSpace d" "d \<noteq> CHR ''+''" "d \<noteq> CHR ''-''"
    by (simp_all add: isDigit_not_special)
  then have "trimStart (ds @ rest) = d # (ds' @ rest)"
    by (simp add: trimStart_def ds)
  with d have "parseFloat (ds @ rest) = strUnsignedDecimalLiteral (ds @ rest)"
    by (simp add: parseFloat_def ds)
  with strUnsignedDecimalLiteral_digits [OF assms] show ?thesis by simp
qed

lemma js_neg_NaN: "js_neg x = NaN \<longleftrightarrow> x = NaN"
  by (cases x) simp_all

lemma takeWhile_Nil_iff: "takeWhile P xs = [] \<longleftrightarrow> xs = [] \<or> \<not> P (hd xs)"
  by (cases xs) simp_all

lemma strUnsignedDecimalLiteral_NaN:
  "strUnsignedDecimalLiteral u = NaN \<longleftrightarrow>
     \<not> (take 8 u = ''Infinity'' \<or> (\<exists>d t. u = d # t \<and> isDigit d)
        \<or> (\<exists>d t. u = CHR ''.'' # d # t \<and> isDigit d))"
proof (cases "take 8 u = ''Infinity''")
  case True
  then show ?thesis by (simp add: strUnsignedDecimalLiteral_def)
next
  case False
  show ?thesis
  proof (cases u)
    case Nil
    then show ?thesis by (simp add: strUnsignedDecimalLiteral_def)
  next
    case (Cons c t)
    show ?thesis
    proof (cases "isDigit c")
      case True
      with Cons False show ?thesis
        by (simp add: strUnsignedDecimalLiteral_def Let_def round64_not_NaN)
    next
      case nd: False
      show ?thesis
      proof (cases "c = CHR ''.''")
        case True
        with Cons False nd show ?thesis
          by (cases t) (simp_all add: strUnsignedDecimalLiteral_def Let_def round64_not_NaN)
      next
        case False
        with Cons \<open>take 8 u \<noteq> ''Infinity''\<close> nd show ?thesis
          by (simp add: strUnsignedDecimalLiteral_def Let_def round64_not_NaN)
      qed
    qed
  qed
qed


lemma parseFloat_NaN:
  "parseFloat v = NaN \<longleftrightarrow>
     (case trimStart v of
        [] \<Rightarrow> True
      | c # t \<Rightarrow>
          (let u = (if c = CHR ''+'' \<or> c = CHR ''-'' then t else c # t)
           in \<not> (take 8 u = ''Infinity'' \<or> (\<exists>d r. u = d # r \<and> isDigit d)
                 \<or> (\<exists>d r. u = CHR ''.'' # d # r \<and> isDigit d))))"
  by (simp add: parseFloat_def js_neg_NaN strUnsignedDecimalLiteral_NaN Let_def
      split: list.split)

lemma not_formValid_NaN: "parseFloat (amount s) = NaN \<Longrightarrow> \<not> formValid s"
  by (simp add: formValid_def isNaN_def)

lemma updateExpense_invalid: "\<not> formValid s \<Longrightarrow> updateExpense nowISO s = s"
  by (simp add: updateExpense_def split: option.split)

lemma updateBudget_NaN: "parseFloat v = NaN \<Longrightarrow> updateBudget cat v s = s"
  by (simp add: updateBudget_def isNaN_def)

lemma updateBudget_rounded:
  "parseFloat v = round64 q \<Longrightarrow> 0 \<le> q \<Longrightarrow>
   updateBudget cat v s = s\<lparr> budgets := (budgets s)(cat \<mapsto> parseFloat v) \<rparr>"
  by (simp add: updateBudget_def isNaN_def round64_not_NaN round64_nonneg_ge)

lemma formValid_rounded:
  assumes "truthy_str (trim (description s))" and "parseFloat (amount s) = round64 q"
  shows "formValid s"
proof -
  from assms(2) have number: "parseFloat (amount s) \<noteq> NaN"
    by (simp add: round64_not_NaN)
  have "parseFloat [] = NaN"
    by (simp add: parseFloat_def trimStart_def)
  with number have "amount s \<noteq> []"
    by auto
  with assms(1) number show ?thesis
    by (simp add: formValid_def isNaN_def truthy_str_def)
qed

text \<open>
  C10. The amount is read by \<^verbatim>\<open>parseFloat\<close>, which parses a prefix. For a text made
  of digits \<open>ds\<close> followed by anything that does not continue the numeral (not a digit,
  a point or an exponent mark), \<^verbatim>\<open>parseFloat\<close> gives the value of \<open>ds\<close> rounded to
  binary64, which is the value of \<open>ds\<close> itself when that is below \<open>2 ^ 53\<close>;
  \<^verbatim>\<open>updateBudget\<close> stores what \<^verbatim>\<open>parseFloat\<close> gives as the limit, and with a
  description that is not blank \<^verbatim>\<open>handleAddExpense\<close> appends a transaction with that
  amount and \<^verbatim>\<open>updateExpense\<close> (with a non-zero id being edited) stores it in the
  edited transaction. \<^verbatim>\<open>parseFloat\<close> gives \<^verbatim>\<open>NaN\<close> exactly when, after the leading
  white space and an optional sign, the text starts with neither \<^verbatim>\<open>Infinity\<close>, nor a
  digit, nor a point followed by a digit; on such a text the three handlers leave the
  state unchanged.
\<close>

theorem parseFloat_prefix_accepted:
  "(ds \<noteq> [] \<and> (\<forall>c\<in>set ds. isDigit c)
      \<and> (rest = [] \<or> \<not> isDigit (hd rest) \<and> hd rest \<notin> {CHR ''.'', CHR ''e'', CHR ''E''})
    \<longrightarrow> parseFloat (ds @ rest) = round64 (of_int (decimalValue ds))
      \<and> (decimalValue ds < 2 ^ 53 \<longrightarrow> parseFloat (ds @ rest) = Fin (of_int (decimalValue ds)))
      \<and> updateBudget cat (ds @ rest) s
           = s\<lparr> budgets := (budgets s)(cat \<mapsto> parseFloat (ds @ rest)) \<rparr>
      \<and> (truthy_str (trim (description s)) \<and> amount s = ds @ rest \<longrightarrow>
           expenses (handleAddExpense now nowISO s)
             = expenses s @ [\<lparr> e_id = now, e_description = description s,
                                e_amount = parseFloat (ds @ rest),
                                e_category = category s, e_type = type s, e_date = nowISO,
                                e_updatedAt = None \<rparr>]
           \<and> (editingExpenseId s = Some i \<and> i \<noteq> 0 \<longrightarrow>
                expenses (updateExpense nowISO s)
                  = map (\<lambda>expense. if e_id expense = i
                          then \<lparr> e_id = e_id expense, e_description = description s,
                                 e_amount = parseFloat (ds @ rest),
                                 e_category = category s, e_type = type s,
                                 e_date = e_date expense, e_updatedAt = Some nowISO \<rparr>
                          else expense) (expenses s))))
   \<and> (parseFloat v = NaN \<longleftrightarrow>
        (case trimStart v of
           [] \<Rightarrow> True
         | c # t \<Rightarrow>
             (let u = (if c = CHR ''+'' \<or> c = CHR ''-'' then t else c # t)
              in \<not> (take 8 u = ''Infinity'' \<or> (\<exists>d r. u = d # r \<and> isDigit d)
                    \<or> (\<exists>d r. u = CHR ''.'' # d # r \<and> isDigit d)))))
   \<and> (parseFloat v = NaN \<longrightarrow>
        updateBudget cat v s = s
        \<and> (amount s = v \<longrightarrow> handleAddExpense now nowISO s = s \<and> updateExpense nowISO s = s))"
proof (intro conjI impI)
  show "parseFloat v = NaN \<longleftrightarrow>
        (case trimStart v of
           [] \<Rightarrow> True
         | c # t \<Rightarrow>
             (let u = (if c = CHR ''+'' \<or> c = CHR ''-'' then t else c # t)
              in \<not> (take 8 u = ''Infinity'' \<or> (\<exists>d r. u = d # r \<and> isDigit d)
                    \<or> (\<exists>d r. u = CHR ''.'' # d # r \<and> isDigit d))))"
    by (rule parseFloat_NaN)
next
  assume "parseFloat v = NaN"
  then show "updateBudget cat v s = s" by (rule updateBudget_NaN)
next
  assume "parseFloat v = NaN" and "amount s = v"
  then have nv: "\<not> formValid s" by (simp add: not_formValid_NaN)
  then show "handleAddExpense now nowISO s = s" by (rule handleAddExpense_invalid)
  from nv show "updateExpense nowISO s = s" by (rule updateExpense_invalid)
next
  assume h: "ds \<noteq> [] \<and> (\<forall>c\<in>set ds. isDigit c)
      \<and> (rest = [] \<or> \<not> isDigit (hd rest) \<and> hd rest \<notin> {CHR ''.'', CHR ''e'', CHR ''E''})"
  then show p: "parseFloat (ds @ rest) = round64 (of_int (decimalValue ds))"
    by (intro parseFloat_digits) blast+
  from h have nonneg: "0 \<le> decimalValue ds"
    by (intro decimalValue_nonneg) blast
  then have q: "(0::rat) \<le> of_int (decimalValue ds)" by simp
  from p q show "updateBudget cat (ds @ rest) s
           = s\<lparr> budgets := (budgets s)(cat \<mapsto> parseFloat (ds @ rest)) \<rparr>"
    by (rule updateBudget_rounded)
  {
    assume "decimalValue ds < 2 ^ 53"
    with nonneg have "\<bar>decimalValue ds\<bar> < 2 ^ 53" by simp
    then have "round64 (of_int (decimalValue ds)) = Fin (of_int (decimalValue ds))"
      by (rule round64_of_int)
    with p show "parseFloat (ds @ rest) = Fin (of_int (decimalValue ds))" by simp
  }
  assume f: "truthy_str (trim (description s)) \<and> amount s = ds @ rest"
  with p have v: "formValid s" by (intro formValid_rounded [of s]) simp_all
  from handleAddExpense_valid [OF v] f
  show "expenses (handleAddExpense now nowISO s)
             = expenses s @ [\<lparr> e_id = now, e_description = description s,
                                e_amount = parseFloat (ds @ rest),
                                e_category = category s, e_type = type s, e_date = nowISO,
                                e_updatedAt = None \<rparr>]"
    by simp
  assume "editingExpenseId s = Some i \<and> i \<noteq> 0"
  then have "editingExpenseId s = Some i" "i \<noteq> 0" by simp_all
  from updateExpense_valid [OF v this] f
  show "expenses (updateExpense nowISO s)
                  = map (\<lambda>expense. if e_id expense = i
                          then \<lparr> e_id = e_id expense, e_description = description s,
                                 e_amount = parseFloat (ds @ rest),
                                 e_category = category s, e_type = type s,
                                 e_date = e_date expense, e_updatedAt = Some nowISO \<rparr>
                          else expense) (expenses s)"
    by simp
qed

text \<open>
  The amount text \<^verbatim>\<open>12abc\<close> is taken as \<open>12\<close> by the add, the edit and the budget
  limit; the text \<^verbatim>\<open>abc\<close> is rejected by all three.
\<close>

theorem parseFloat_prefix_accepted_witness:
  "parseFloat ''12abc'' = Fin 12
   \<and> budgets (updateBudget ''food'' ''12abc'' (emptyStorageApp 2 2024)) ''food'' = Some (Fin 12)
   \<and> expenses (handleAddExpense 1710498600000 ''2024-03-15T10:30:00.000Z''
        ((emptyStorageApp 2 2024)\<lparr> description := ''Tea'', amount := ''12abc'' \<rparr>))
      = [\<lparr> e_id = 1710498600000, e_description = ''Tea'', e_amount = Fin 12,
           e_category = ''food'', e_type = ''expense'', e_date = ''2024-03-15T10:30:00.000Z'',
           e_updatedAt = None \<rparr>]
   \<and> expenses (updateExpense ''2024-03-16T08:00:00.000Z''
        ((emptyStorageApp 2 2024)
         \<lparr> expenses :=
             [\<lparr> e_id = 1710498600000, e_description = ''Tea'', e_amount = Fin 3,
                 e_category = ''food'', e_type = ''expense'',
                 e_date = ''2024-03-15T10:30:00.000Z'', e_updatedAt = None \<rparr>],
            description := ''Tea'', amount := ''12abc'',
            editingExpenseId := Some 1710498600000 \<rparr>))
      = [\<lparr> e_id = 1710498600000, e_description = ''Tea'', e_amount = Fin 12,
           e_category = ''food'', e_type = ''expense'', e_date = ''2024-03-15T10:30:00.000Z'',
           e_updatedAt = Some ''2024-03-16T08:00:00.000Z'' \<rparr>]
   \<and> parseFloat ''abc'' = NaN
   \<and> updateBudget ''food'' ''abc'' (emptyStorageApp 2 2024) = emptyStorageApp 2 2024
   \<and> handleAddExpense 1710498600000 ''2024-03-15T10:30:00.000Z''
        ((emptyStorageApp 2 2024)\<lparr> description := ''Tea'', amount := ''abc'' \<rparr>)
      = (emptyStorageApp 2 2024)\<lparr> description := ''Tea'', amount := ''abc'' \<rparr>
   \<and> updateExpense ''2024-03-16T08:00:00.000Z''
        ((emptyStorageApp 2 2024)
         \<lparr> description := ''Tea'', amount := ''abc'', editingExpenseId := Some 1710498600000 \<rparr>)
      = (emptyStorageApp 2 2024)
         \<lparr> description := ''Tea'', amount := ''abc'', editingExpenseId := Some 1710498600000 \<rparr>"
proof -
  define a where "a = (emptyStorageApp 2 2024)\<lparr> description := ''Tea'', amount := ''12abc'' \<rparr>"
  define u where "u = (emptyStorageApp 2 2024)
         \<lparr> expenses :=
             [\<lparr> e_id = 1710498600000, e_description = ''Tea'', e_amount = Fin 3,
                 e_category = ''food'', e_type = ''expense'',
                 e_date = ''2024-03-15T10:30:00.000Z'', e_updatedAt = None \<rparr>],
            description := ''Tea'', amount := ''12abc'',
            editingExpenseId := Some 1710498600000 \<rparr>"
  define a' where "a' = (emptyStorageApp 2 2024)\<lparr> description := ''Tea'', amount := ''abc'' \<rparr>"
  define u' where "u' = (emptyStorageApp 2 2024)
         \<lparr> description := ''Tea'', amount := ''abc'', editingExpenseId := Some 1710498600000 \<rparr>"
  have h: "''12'' \<noteq> [] \<and> (\<forall>c\<in>set ''12''. isDigit c)
      \<and> (''abc'' = [] \<or> \<not> isDigit (hd ''abc'') \<and> hd ''abc'' \<notin> {CHR ''.'', CHR ''e'', CHR ''E''})"
    by (simp add: isDigit_def)
  have d: "decimalValue ''12'' = 12"
    by (simp add: decimalValue_def digitVal_def)
  have t: "truthy_str (trim ''Tea'')"
    by (simp add: truthy_str_def trim_def trimStart_def trimEnd_def isWhiteSpace_def)
  have n: "(case trimStart ''abc'' of
           [] \<Rightarrow> True
         | c # t \<Rightarrow>
             (let u = (if c = CHR ''+'' \<or> c = CHR ''-'' then t else c # t)
              in \<not> (take 8 u = ''Infinity'' \<or> (\<exists>d r. u = d # r \<and> isDigit d)
                    \<or> (\<exists>d r. u = CHR ''.'' # d # r \<and> isDigit d))))"
    by (simp add: trimStart_def isWhiteSpace_def isDigit_def)
  note thm_a = parseFloat_prefix_accepted [where ds = "''12''" and rest = "''abc''" and s = a
      and cat = "''food''" and now = 1710498600000 and nowISO = "''2024-03-15T10:30:00.000Z''"
      and v = "''abc''" and i = 0]
  note thm_u = parseFloat_prefix_accepted [where ds = "''12''" and rest = "''abc''" and s = u
      and cat = "''food''" and now = 0 and nowISO = "''2024-03-16T08:00:00.000Z''"
      and v = "''abc''" and i = 1710498600000]
  note thm_e = parseFloat_prefix_accepted [where ds = "''12''" and rest = "''abc''"
      and s = "emptyStorageApp 2 2024"
      and cat = "''food''" and now = 0 and nowISO = "[]" and v = "''abc''" and i = 0]
  note thm_a' = parseFloat_prefix_accepted [where ds = "''12''" and rest = "''abc''" and s = a'
      and cat = "''food''" and now = 1710498600000 and nowISO = "''2024-03-15T10:30:00.000Z''"
      and v = "''abc''" and i = 0]
  note thm_u' = parseFloat_prefix_accepted [where ds = "''12''" and rest = "''abc''" and s = u'
      and cat = "''food''" and now = 0 and nowISO = "''2024-03-16T08:00:00.000Z''"
      and v = "''abc''" and i = 0]
  have small: "decimalValue ''12'' < 2 ^ 53"
    by (simp add: d)
  from thm_e h small have "parseFloat (''12'' @ ''abc'') = Fin (of_int (decimalValue ''12''))"
    by blast
  then have p12: "parseFloat ''12abc'' = Fin 12"
    by (simp add: d)
  from thm_e h have "updateBudget ''food'' (''12'' @ ''abc'') (emptyStorageApp 2 2024)
      = (emptyStorageApp 2 2024)
          \<lparr> budgets := (budgets (emptyStorageApp 2 2024))(''food'' \<mapsto> parseFloat (''12'' @ ''abc'')) \<rparr>"
    by blast
  then have b12: "updateBudget ''food'' ''12abc'' (emptyStorageApp 2 2024)
      = (emptyStorageApp 2 2024)\<lparr> budgets := (budgets (emptyStorageApp 2 2024))(''food'' \<mapsto> Fin 12) \<rparr>"
    by (simp add: p12)
  from thm_e n have nan: "parseFloat ''abc'' = NaN"
    by blast
  from thm_e nan have babc: "updateBudget ''food'' ''abc'' (emptyStorageApp 2 2024) = emptyStorageApp 2 2024"
    by blast
  have "truthy_str (trim (description a)) \<and> amount a = ''12'' @ ''abc''"
    using t by (simp add: a_def)
  with thm_a h have "expenses (handleAddExpense 1710498600000 ''2024-03-15T10:30:00.000Z'' a)
             = expenses a @ [\<lparr> e_id = 1710498600000, e_description = description a,
                                e_amount = parseFloat (''12'' @ ''abc''),
                                e_category = category a, e_type = type a,
                                e_date = ''2024-03-15T10:30:00.000Z'',
                                e_updatedAt = None \<rparr>]"
    by blast
  then have add12: "expenses (handleAddExpense 1710498600000 ''2024-03-15T10:30:00.000Z'' a)
      = [\<lparr> e_id = 1710498600000, e_description = ''Tea'', e_amount = Fin 12,
           e_category = ''food'', e_type = ''expense'', e_date = ''2024-03-15T10:30:00.000Z'',
           e_updatedAt = None \<rparr>]"
    by (simp add: p12 a_def emptyStorageApp_simps)
  have "truthy_str (trim (description u)) \<and> amount u = ''12'' @ ''abc''"
      "editingExpenseId u = Some 1710498600000 \<and> (1710498600000::int) \<noteq> 0"
    using t by (simp_all add: u_def)
  with thm_u h have "expenses (updateExpense ''2024-03-16T08:00:00.000Z'' u)
                  = map (\<lambda>expense. if e_id expense = 1710498600000
                          then \<lparr> e_id = e_id expense, e_description = description u,
                                 e_amount = parseFloat (''12'' @ ''abc''),
                                 e_category = category u, e_type = type u,
                                 e_date = e_date expense,
                                 e_updatedAt = Some ''2024-03-16T08:00:00.000Z'' \<rparr>
                          else expense) (expenses u)"
    by blast
  then have upd12: "expenses (updateExpense ''2024-03-16T08:00:00.000Z'' u)
      = [\<lparr> e_id = 1710498600000, e_description = ''Tea'', e_amount = Fin 12,
           e_category = ''food'', e_type = ''expense'', e_date = ''2024-03-15T10:30:00.000Z'',
           e_updatedAt = Some ''2024-03-16T08:00:00.000Z'' \<rparr>]"
    by (simp add: p12 u_def emptyStorageApp_simps)
  have "amount a' = ''abc''" "amount u' = ''abc''"
    by (simp_all add: a'_def u'_def)
  with thm_a' thm_u' nan
  have rej: "handleAddExpense 1710498600000 ''2024-03-15T10:30:00.000Z'' a' = a'"
      "updateExpense ''2024-03-16T08:00:00.000Z'' u' = u'"
    by blast+
  from p12 b12 add12 upd12 nan babc rej show ?thesis
    unfolding a_def u_def a'_def u'_def by simp
qed

subsection \<open>Loading\<close>

lemma useLocalStorage_fallback:
  assumes "getItem key = Inl err0 \<or> getItem key = Inr None
           \<or> (\<exists>str err. getItem key = Inr (Some str) \<and> JSON_parse str = Inl err)"
  shows "useLocalStorage getItem JSON_parse key initialValue = initialValue"
  using assms
  by (auto simp add: useLocalStorage_def useLocalStorage_try_def)

lemma useLocalStorage_caught:
  "useLocalStorage_try getItem JSON_parse key initialValue = Inl err
   \<Longrightarrow> useLocalStorage getItem JSON_parse key initialValue = initialValue"
  by (simp add: useLocalStorage_def)

lemma loadingTimer_firstRender:
  "expenses (loadingTimer (firstRender getItem parseExpenses parseBudgets month year)) = []"
  "budgets (loadingTimer (firstRender getItem parseExpenses parseBudgets month year))
     = useLocalStorage getItem parseBudgets ''budgets'' defaultBudgets"
  "savedExpenses (loadingTimer (firstRender getItem parseExpenses parseBudgets month year))
     = useLocalStorage getItem parseExpenses ''expenses'' []"
  "savedBudgets (loadingTimer (firstRender getItem parseExpenses parseBudgets month year))
     = useLocalStorage getItem parseBudgets ''budgets'' defaultBudgets"
  by (simp_all add: loadingTimer_def firstRender_def)

lemma defaultBudgets_values:
  "defaultBudgets ''food'' = Some (Fin 300)"
  "defaultBudgets ''housing'' = Some (Fin 800)"
  "defaultBudgets ''transportation'' = Some (Fin 150)"
  "defaultBudgets ''utilities'' = Some (Fin 200)"
  "defaultBudgets ''entertainment'' = Some (Fin 100)"
  "defaultBudgets ''healthcare'' = Some (Fin 150)"
  "defaultBudgets ''shopping'' = Some (Fin 200)"
  "defaultBudgets ''other'' = Some (Fin 100)"
  by (simp_all add: defaultBudgets_def)

lemma defaultBudgets_dom:
  "dom defaultBudgets = {''food'', ''housing'', ''transportation'', ''utilities'',
     ''entertainment'', ''healthcare'', ''shopping'', ''other''}"
  unfolding defaultBudgets_def dom_def by (auto split: if_splits)

text \<open>
  C9. When the store throws on the key, holds nothing under it, or holds a text that
  \<^verbatim>\<open>JSON.parse\<close> rejects, the hook's value is its initial value: the empty list for
  \<^verbatim>\<open>expenses\<close> and the default budgets for \<^verbatim>\<open>budgets\<close>, and after the loading
  effect the ledger is empty and the budget table is the default one. Whatever the body of
  the \<^verbatim>\<open>try\<close> throws, the hook returns the initial value. The default budgets are
  food 300, housing 800, transportation 150, utilities 200, entertainment 100,
  healthcare 150, shopping 200 and other 100, and nothing else.
\<close>

theorem load_falls_back_to_defaults:
  "((getItem ''expenses'' = Inl err0 \<or> getItem ''expenses'' = Inr None
      \<or> (\<exists>str err. getItem ''expenses'' = Inr (Some str) \<and> parseExpenses str = Inl err))
     \<longrightarrow> savedExpenses (firstRender getItem parseExpenses parseBudgets month year) = []
       \<and> expenses (loadingTimer (firstRender getItem parseExpenses parseBudgets month year)) = [])
   \<and> ((getItem ''budgets'' = Inl err0 \<or> getItem ''budgets'' = Inr None
      \<or> (\<exists>str err. getItem ''budgets'' = Inr (Some str) \<and> parseBudgets str = Inl err))
     \<longrightarrow> savedBudgets (firstRender getItem parseExpenses parseBudgets month year) = defaultBudgets
       \<and> budgets (loadingTimer (firstRender getItem parseExpenses parseBudgets month year))
           = defaultBudgets)
   \<and> (useLocalStorage_try getItem parseExpenses ''expenses'' [] = Inl err1
     \<longrightarrow> useLocalStorage getItem parseExpenses ''expenses'' [] = [])
   \<and> (useLocalStorage_try getItem parseBudgets ''budgets'' defaultBudgets = Inl err2
     \<longrightarrow> useLocalStorage getItem parseBudgets ''budgets'' defaultBudgets = defaultBudgets)
   \<and> dom defaultBudgets = {''food'', ''housing'', ''transportation'', ''utilities'',
        ''entertainment'', ''healthcare'', ''shopping'', ''other''}
   \<and> defaultBudgets ''food'' = Some (Fin 300)
   \<and> defaultBudgets ''housing'' = Some (Fin 800)
   \<and> defaultBudgets ''transportation'' = Some (Fin 150)
   \<and> defaultBudgets ''utilities'' = Some (Fin 200)
   \<and> defaultBudgets ''entertainment'' = Some (Fin 100)
   \<and> defaultBudgets ''healthcare'' = Some (Fin 150)
   \<and> defaultBudgets ''shopping'' = Some (Fin 200)
   \<and> defaultBudgets ''other'' = Some (Fin 100)"
proof (intro conjI impI)
  assume absent: "getItem ''expenses'' = Inl err0 \<or> getItem ''expenses'' = Inr None
      \<or> (\<exists>str err. getItem ''expenses'' = Inr (Some str) \<and> parseExpenses str = Inl err)"
  from useLocalStorage_fallback [of getItem "''expenses''" err0 parseExpenses "[]"] absent
  show "savedExpenses (firstRender getItem parseExpenses parseBudgets month year) = []"
    by (simp add: firstRender_def)
  show "expenses (loadingTimer (firstRender getItem parseExpenses parseBudgets month year)) = []"
    by (simp add: loadingTimer_firstRender)
next
  assume absent: "getItem ''budgets'' = Inl err0 \<or> getItem ''budgets'' = Inr None
      \<or> (\<exists>str err. getItem ''budgets'' = Inr (Some str) \<and> parseBudgets str = Inl err)"
  from useLocalStorage_fallback [of getItem "''budgets''" err0 parseBudgets defaultBudgets] absent
  have fallback: "useLocalStorage getItem parseBudgets ''budgets'' defaultBudgets = defaultBudgets"
    by simp
  then show "savedBudgets (firstRender getItem parseExpenses parseBudgets month year)
      = defaultBudgets"
    by (simp add: firstRender_def)
  from fallback
  show "budgets (loadingTimer (firstRender getItem parseExpenses parseBudgets month year))
      = defaultBudgets"
    by (simp add: loadingTimer_firstRender)
next
  assume "useLocalStorage_try getItem parseExpenses ''expenses'' [] = Inl err1"
  then show "useLocalStorage getItem parseExpenses ''expenses'' [] = []"
    by (rule useLocalStorage_caught)
next
  assume "useLocalStorage_try getItem parseBudgets ''budgets'' defaultBudgets = Inl err2"
  then show "useLocalStorage getItem parseBudgets ''budgets'' defaultBudgets = defaultBudgets"
    by (rule useLocalStorage_caught)
qed (simp_all only: defaultBudgets_values defaultBudgets_dom)

text \<open>
  A store with nothing under \<^verbatim>\<open>expenses\<close> and a truncated text under
  \<^verbatim>\<open>budgets\<close>, which the parser rejects.
\<close>

theorem load_falls_back_to_defaults_witness:
  "savedExpenses
     (firstRender (\<lambda>key. if key = ''budgets'' then Inr (Some ''{food:'') else Inr None)
        (\<lambda>str. Inl SyntaxError)
        (\<lambda>str. if str = ''{}'' then Inr Map.empty else Inl SyntaxError) 2 2024) = []
   \<and> expenses
     (loadingTimer
       (firstRender (\<lambda>key. if key = ''budgets'' then Inr (Some ''{food:'') else Inr None)
          (\<lambda>str. Inl SyntaxError)
          (\<lambda>str. if str = ''{}'' then Inr Map.empty else Inl SyntaxError) 2 2024)) = []
   \<and> budgets
     (loadingTimer
       (firstRender (\<lambda>key. if key = ''budgets'' then Inr (Some ''{food:'') else Inr None)
          (\<lambda>str. Inl SyntaxError)
          (\<lambda>str. if str = ''{}'' then Inr Map.empty else Inl SyntaxError) 2 2024)) = defaultBudgets
   \<and> budgets
     (loadingTimer
       (firstRender (\<lambda>key. if key = ''budgets'' then Inr (Some ''{food:'') else Inr None)
          (\<lambda>str. Inl SyntaxError)
          (\<lambda>str. if str = ''{}'' then Inr Map.empty else Inl SyntaxError) 2 2024)) ''housing''
       = Some (Fin 800)"
proof -
  define getItem :: "string \<Rightarrow> js_error + string option"
    where "getItem = (\<lambda>key. if key = ''budgets'' then Inr (Some ''{food:'') else Inr None)"
  define parseExpenses :: "string \<Rightarrow> js_error + expense list"
    where "parseExpenses = (\<lambda>str. Inl SyntaxError)"
  define parseBudgets :: "string \<Rightarrow> js_error + (string \<rightharpoonup> jsnum)"
    where "parseBudgets = (\<lambda>str. if str = ''{}'' then Inr Map.empty else Inl SyntaxError)"
  have absent: "getItem ''expenses'' = Inl SecurityError \<or> getItem ''expenses'' = Inr None
      \<or> (\<exists>str err. getItem ''expenses'' = Inr (Some str) \<and> parseExpenses str = Inl err)"
    by (simp add: getItem_def)
  have "getItem ''budgets'' = Inr (Some ''{food:'') \<and> parseBudgets ''{food:'' = Inl SyntaxError"
    by (simp add: getItem_def parseBudgets_def)
  then have corrupt: "getItem ''budgets'' = Inl SecurityError \<or> getItem ''budgets'' = Inr None
      \<or> (\<exists>str err. getItem ''budgets'' = Inr (Some str) \<and> parseBudgets str = Inl err)"
    by blast
  note fallback =
    load_falls_back_to_defaults [of getItem SecurityError parseExpenses parseBudgets 2 2024]
  from fallback [THEN conjunct1] absent
  have e: "savedExpenses (firstRender getItem parseExpenses parseBudgets 2 2024) = []
      \<and> expenses (loadingTimer (firstRender getItem parseExpenses parseBudgets 2 2024)) = []"
    by (rule mp)
  from fallback [THEN conjunct2, THEN conjunct1] corrupt
  have b: "savedBudgets (firstRender getItem parseExpenses parseBudgets 2 2024) = defaultBudgets
      \<and> budgets (loadingTimer (firstRender getItem parseExpenses parseBudgets 2 2024))
          = defaultBudgets"
    by (rule mp)
  have h: "defaultBudgets ''housing'' = Some (Fin 800)"
    by (simp add: defaultBudgets_values)
  from e b h
  have "savedExpenses (firstRender getItem parseExpenses parseBudgets 2 2024) = []
      \<and> expenses (loadingTimer (firstRender getItem parseExpenses parseBudgets 2 2024)) = []
      \<and> budgets (loadingTimer (firstRender getItem parseExpenses parseBudgets 2 2024)) = defaultBudgets
      \<and> budgets (loadingTimer (firstRender getItem parseExpenses parseBudgets 2 2024)) ''housing''
          = Some (Fin 800)"
    by simp
  then show ?thesis
    unfolding getItem_def parseExpenses_def parseBudgets_def .
qed

end
